theory Spec2Isabelle
  imports
    Main
    "HOL-Library.Sublist"
    "HOL-Library.Multiset"
    "HOL-Library.Char_ord"
    "HOL-Library.List_Lexorder"
begin

section \<open>Python strings\<close>

text \<open>
  A Python \<open>str\<close> is modelled as a \<open>string\<close>, one \<open>char\<close> per code point; the model
  covers the strings whose code points are below 256. The order on strings
  (lexicographic, characters compared by code point) is the order Python uses to
  compare two \<open>str\<close> values. The bytes a subprocess writes enter the model after
  \<^verbatim>\<open>.decode()\<close>, as a \<open>str\<close>.
\<close>

definition startswith :: "string \<Rightarrow> string \<Rightarrow> bool" where
  \<comment> \<open>\<^verbatim>\<open>s.startswith(p)\<close>\<close>
  "startswith s p = (take (length p) s = p)"

definition endswith :: "string \<Rightarrow> string \<Rightarrow> bool" where
  \<comment> \<open>\<^verbatim>\<open>s.endswith(x)\<close>\<close>
  "endswith s x = (length x \<le> length s \<and> drop (length s - length x) s = x)"

definition slice_to_minus :: "nat \<Rightarrow> 'a list \<Rightarrow> 'a list" where
  \<comment> \<open>\<^verbatim>\<open>s[:-n]\<close> for \<open>n > 0\<close>: all but the last \<open>n\<close> items, empty when there are
      fewer than \<open>n\<close>.\<close>
  "slice_to_minus n s = take (length s - n) s"

definition slice_from_minus :: "nat \<Rightarrow> 'a list \<Rightarrow> 'a list" where
  \<comment> \<open>\<^verbatim>\<open>s[-n:]\<close> for \<open>n > 0\<close>: the last \<open>n\<close> items, all of them when there are
      fewer than \<open>n\<close>.\<close>
  "slice_from_minus n s = drop (length s - n) s"

fun find_from :: "string \<Rightarrow> nat \<Rightarrow> string \<Rightarrow> nat option" where
  "find_from sub i [] = (if sub = [] then Some i else None)"
| "find_from sub i (c # cs) =
     (if startswith (c # cs) sub then Some i else find_from sub (Suc i) cs)"

definition str_find :: "string \<Rightarrow> string \<Rightarrow> nat option" where
  \<comment> \<open>\<^verbatim>\<open>s.find(sub)\<close>: the lowest index where \<open>sub\<close> occurs; \<open>None\<close> stands for
      Python's \<open>-1\<close>.\<close>
  "str_find s sub = find_from sub 0 s"

definition replace_char :: "char \<Rightarrow> char \<Rightarrow> string \<Rightarrow> string" where
  \<comment> \<open>\<^verbatim>\<open>s.replace(old, new)\<close> where \<open>old\<close> and \<open>new\<close> are one character each.\<close>
  "replace_char old new s = map (\<lambda>c. if c = old then new else c) s"

fun str_split :: "char \<Rightarrow> string \<Rightarrow> string list" where
  \<comment> \<open>\<^verbatim>\<open>s.split(sep)\<close> for a separator of one character: never an empty list.\<close>
  "str_split sep [] = [[]]"
| "str_split sep (c # cs) =
     (if c = sep then [] # str_split sep cs
      else (case str_split sep cs of
              [] \<Rightarrow> [[c]]
            | x # xs \<Rightarrow> (c # x) # xs))"

fun str_join :: "string \<Rightarrow> string list \<Rightarrow> string" where
  \<comment> \<open>\<^verbatim>\<open>sep.join(xs)\<close>\<close>
  "str_join sep [] = []"
| "str_join sep [x] = x"
| "str_join sep (x # y # ys) = x @ sep @ str_join sep (y # ys)"

definition is_space :: "char \<Rightarrow> bool" where
  \<comment> \<open>\<^verbatim>\<open>c.isspace()\<close> on the code points below 256: TAB, LF, VT, FF, CR, the four
      separators FS, GS, RS, US, the space, NEL and the no-break space.\<close>
  "is_space c = (of_char c \<in> {9, 10, 11, 12, 13, 28, 29, 30, 31, 32, 133, 160 :: nat})"

definition str_strip :: "string \<Rightarrow> string" where
  \<comment> \<open>\<^verbatim>\<open>s.strip()\<close>\<close>
  "str_strip s = rev (dropWhile is_space (rev (dropWhile is_space s)))"

definition is_linebreak :: "char \<Rightarrow> bool" where
  \<comment> \<open>The line boundaries of \<^verbatim>\<open>str.splitlines\<close> below 256: LF, VT, FF, CR, FS, GS,
      RS and NEL.\<close>
  "is_linebreak c = (of_char c \<in> {10, 11, 12, 13, 28, 29, 30, 133 :: nat})"

fun splitlines_from :: "string \<Rightarrow> string \<Rightarrow> string list" where
  \<comment> \<open>The first argument is the current line, reversed. CR followed by LF is one
      boundary. A last line with no boundary after it is kept unless it is empty.\<close>
  "splitlines_from acc [] = (if acc = [] then [] else [rev acc])"
| "splitlines_from acc [c] = (if is_linebreak c then [rev acc] else [rev (c # acc)])"
| "splitlines_from acc (c # d # cs) =
     (if of_char c = (13::nat) \<and> of_char d = (10::nat) then rev acc # splitlines_from [] cs
      else if is_linebreak c then rev acc # splitlines_from [] (d # cs)
      else splitlines_from (c # acc) (d # cs))"

definition str_splitlines :: "string \<Rightarrow> string list" where
  \<comment> \<open>\<^verbatim>\<open>s.splitlines()\<close>\<close>
  "str_splitlines s = splitlines_from [] s"

fun digits_of :: "nat \<Rightarrow> string" where
  "digits_of n =
     (if n < 10 then [char_of (48 + n)]
      else digits_of (n div 10) @ [char_of (48 + n mod 10)])"

definition format_d :: "nat \<Rightarrow> string" where
  \<comment> \<open>\<^verbatim>\<open>"%d" % n\<close> for a length \<open>n\<close>\<close>
  "format_d n = digits_of n"

definition path_join2 :: "string \<Rightarrow> string \<Rightarrow> string" where
  \<comment> \<open>One step of \<^verbatim>\<open>posixpath.join\<close>: an absolute component replaces what came
      before it; otherwise the component is appended, after a \<open>/\<close> unless the path
      so far is empty or ends with one.\<close>
  "path_join2 path b =
     (if startswith b ''/'' then b
      else if path = [] \<or> endswith path ''/'' then path @ b
      else path @ ''/'' @ b)"

definition os_path_join :: "string \<Rightarrow> string list \<Rightarrow> string" where
  \<comment> \<open>\<^verbatim>\<open>os.path.join(a, *p)\<close> on a POSIX system\<close>
  "os_path_join a p = foldl path_join2 a p"

section \<open>Target attribution\<close>

text \<open>
  The test one original pattern goes through in the inner loop of
  \<^verbatim>\<open>_map_normalized_targets_to_original\<close>: a pattern ending in \<^verbatim>\<open>/...\<close> is
  compared as a prefix of the target, with its last four characters removed; any other
  pattern is compared for equality.
\<close>

definition original_matches :: "string \<Rightarrow> string \<Rightarrow> bool" where
  "original_matches target original =
     (if endswith original ''/...''
      then startswith target (slice_to_minus 4 original)
      else target = original)"

text \<open>
  The inner loop: \<open>name\<close> starts as \<open>None\<close> and is overwritten by every original
  pattern that passes the test.
\<close>

fun scan_originals :: "string \<Rightarrow> string option \<Rightarrow> string list \<Rightarrow> string option" where
  "scan_originals target name [] = name"
| "scan_originals target name (original # rest) =
     scan_originals target
       (if endswith original ''/...''
        then (if startswith target (slice_to_minus 4 original) then Some original else name)
        else (if target = original then Some original else name))
       rest"

definition mapped_name :: "string \<Rightarrow> string list \<Rightarrow> string" where
  \<comment> \<open>The body of the outer loop up to \<^verbatim>\<open>mapped_targets.add(name)\<close>: the name added
      for one unbuilt target, with the fallback to the target itself.\<close>
  "mapped_name target original_targets =
     (case scan_originals target None original_targets of
        None \<Rightarrow> target
      | Some name \<Rightarrow> name)"

text \<open>
  \<^verbatim>\<open>mapped_targets\<close> is a Python set. The model holds its elements in a list, each
  once, in the order of their insertion. The function returns
  \<^verbatim>\<open>list(mapped_targets)\<close>, the elements in the iteration order of the set, which
  depends on the hashes of the strings and so on the hash seed of the process: the
  source does not determine it. It is the parameter \<open>iteration_order\<close>, a function of
  the elements as they were inserted; all that is known of it is that it visits every
  element once, \<open>mset (iteration_order names) = mset names\<close>.
\<close>

definition set_add :: "string list \<Rightarrow> string \<Rightarrow> string list" where
  \<comment> \<open>\<^verbatim>\<open>s.add(x)\<close>\<close>
  "set_add s x = (if x \<in> set s then s else s @ [x])"

definition map_normalized_targets_to_original ::
  "(string list \<Rightarrow> string list) \<Rightarrow> string list \<Rightarrow> string list \<Rightarrow> string list" where
  "map_normalized_targets_to_original iteration_order unbuilt_targets original_targets =
     (let mapped_targets =
            foldl (\<lambda>mapped_targets target.
                     set_add mapped_targets (mapped_name target original_targets))
              [] unbuilt_targets
      in iteration_order mapped_targets)"

section \<open>The outside world\<close>

text \<open>
  The module reaches the outside through \<^verbatim>\<open>subprocess.check_output\<close>,
  \<^verbatim>\<open>find_root\<close>, \<^verbatim>\<open>glob.glob\<close>, \<^verbatim>\<open>log.get_yes_no_input\<close>, \<^verbatim>\<open>sys.argv\<close> and
  the logger. None of them is part of the module, so each is a field of an environment
  \<open>env\<close>, a function of the state \<open>'w\<close> of the world (the file system, the build
  tool, the user). Running a subprocess or asking the user may change the world;
  \<^verbatim>\<open>find_root\<close> and \<^verbatim>\<open>glob.glob\<close> only read it. A subprocess call ends in one
  of the ways the module handles: it returns the output, raises
  \<^verbatim>\<open>CalledProcessError\<close>, or, when a timeout is given, raises \<^verbatim>\<open>TimeoutExpired\<close>.
  What else the library calls may raise (the program is not found, the output is
  not valid UTF-8) passes through the module untouched and is outside the model.
\<close>

datatype completed =
    Completed string            \<comment> \<open>exit status zero, with the decoded standard output\<close>
  | CalledProcessError string   \<comment> \<open>exit status non-zero, with the decoded standard error\<close>

datatype timed =
    Returned completed
  | TimeoutExpired "string option"
      \<comment> \<open>killed at the timeout; \<open>stderr\<close> is \<open>None\<close> when nothing was read from the
          standard error before the timeout, the decoded bytes read otherwise\<close>

record 'w env =
  check_output :: "string list \<Rightarrow> 'w \<Rightarrow> completed \<times> 'w"
    \<comment> \<open>\<^verbatim>\<open>subprocess.check_output(command, stderr=subprocess.PIPE)\<close>\<close>
  check_output_timeout :: "string list \<Rightarrow> nat \<Rightarrow> 'w \<Rightarrow> timed \<times> 'w"
    \<comment> \<open>\<^verbatim>\<open>subprocess.check_output(command, stderr=subprocess.PIPE, timeout=t)\<close>\<close>
  find_root :: "'w \<Rightarrow> string option"
    \<comment> \<open>\<^verbatim>\<open>find_root(os.getcwd(), ".buckconfig")\<close>\<close>
  glob :: "string \<Rightarrow> 'w \<Rightarrow> string list"
    \<comment> \<open>\<^verbatim>\<open>glob.glob(pattern)\<close>\<close>
  get_yes_no_input :: "string \<Rightarrow> 'w \<Rightarrow> bool \<times> 'w"
    \<comment> \<open>\<^verbatim>\<open>log.get_yes_no_input(prompt)\<close>\<close>
  argv0 :: string
    \<comment> \<open>\<^verbatim>\<open>sys.argv[0]\<close>\<close>
  set_order :: "string list \<Rightarrow> string list"
    \<comment> \<open>the iteration order of a set of strings in this process, from the elements
        in the order of their insertion\<close>

text \<open>
  The state the model threads through the module: the world, the calls made to the
  outside so far, in order, and the records sent to the logger.
\<close>

datatype event =
    Check_output "string list" "nat option"   \<comment> \<open>the command and its timeout\<close>
  | Find_root
  | Glob string
  | Get_yes_no_input string

datatype level = INFO | WARNING | ERROR

record 'w state =
  world :: 'w
  events :: "event list"
  logged :: "(level \<times> string) list"

definition emit :: "event \<Rightarrow> 'w state \<Rightarrow> 'w state" where
  "emit e s = s\<lparr>events := events s @ [e]\<rparr>"

definition LOG :: "level \<Rightarrow> string \<Rightarrow> 'w state \<Rightarrow> 'w state" where
  "LOG l msg s = s\<lparr>logged := logged s @ [(l, msg)]\<rparr>"

text \<open>
  The two exception classes the module raises, and the one the interpreter raises
  inside the module, when \<^verbatim>\<open>decode\<close> is called on \<^verbatim>\<open>None\<close>.
\<close>

datatype exn =
    Exception string       \<comment> \<open>\<^verbatim>\<open>Exception(message)\<close>\<close>
  | BuckException string   \<comment> \<open>\<^verbatim>\<open>BuckException(message)\<close>, a subclass of \<^verbatim>\<open>Exception\<close>\<close>
  | AttributeError         \<comment> \<open>\<^verbatim>\<open>'NoneType' object has no attribute 'decode'\<close>\<close>

record buck_out =
  source_directories :: "string list"
  targets_not_found :: "string list"

section \<open>The output locator\<close>

definition link_tree_pattern :: "string \<Rightarrow> string \<Rightarrow> string" where
  \<comment> \<open>Lines 44 to 51: the glob pattern searched for one target.\<close>
  "link_tree_pattern buck_root target =
     (let target_path = target;
          target_prefix_index = str_find target_path ''//'';
          target_path = (case target_prefix_index of
                           None \<Rightarrow> target_path
                         | Some i \<Rightarrow> drop (i + 2) target_path);
          target_path = replace_char (CHR '':'') (CHR ''/'') target_path
      in os_path_join buck_root [''buck-out/gen/'', target_path @ ''#*link-tree''])"

definition excluded_tree :: "string \<Rightarrow> bool" where
  \<comment> \<open>Lines 58 to 64: \<^verbatim>\<open>tree.endswith((...))\<close> with the tuple of three suffixes.\<close>
  "excluded_tree tree =
     (endswith tree ''-vs_debugger#link-tree''
      \<or> endswith tree ''-interp#link-tree''
      \<or> endswith tree ''-ipython#link-tree'')"

definition locate_target ::
  "'w env \<Rightarrow> string \<Rightarrow> buck_out \<times> 'w state \<Rightarrow> string \<Rightarrow> buck_out \<times> 'w state" where
  \<comment> \<open>The body of the loop over the sorted targets.\<close>
  "locate_target env buck_root acc target =
     (let (out, s) = acc;
          pattern = link_tree_pattern buck_root target;
          discovered_source_directories = glob env pattern (world s);
          s = emit (Glob pattern) s;
          not_found = (if length discovered_source_directories = 0
                       then targets_not_found out @ [target]
                       else targets_not_found out);
          directories = source_directories out
                        @ filter (\<lambda>tree. \<not> excluded_tree tree) discovered_source_directories
      in (\<lparr>source_directories = directories, targets_not_found = not_found\<rparr>, s))"

definition find_built_source_directories ::
  "'w env \<Rightarrow> string list \<Rightarrow> 'w state \<Rightarrow> (exn + buck_out) \<times> 'w state" where
  "find_built_source_directories env targets s =
     (let buck_root = find_root env (world s);
          s = emit Find_root s
      in case buck_root of
           None \<Rightarrow>
             (Inl (Exception ''No .buckconfig found in ancestors of the current directory.''), s)
         | Some root \<Rightarrow>
             (let targets = sort targets;
                  (out, s) = foldl (locate_target env root)
                               (\<lparr>source_directories = [], targets_not_found = []\<rparr>, s) targets
              in (Inr out, s)))"

section \<open>The target normalizer\<close>

text \<open>
  The handler of \<^verbatim>\<open>TimeoutExpired\<close> evaluates \<^verbatim>\<open>error.stderr.decode()\<close> for the
  logger before it raises: when \<^verbatim>\<open>stderr\<close> is \<^verbatim>\<open>None\<close> that call raises
  \<^verbatim>\<open>AttributeError\<close>, nothing is logged, and the exception leaves the function.
\<close>

definition normalize_targets ::
  "'w env \<Rightarrow> string list \<Rightarrow> 'w state \<Rightarrow> (exn + string list) \<times> 'w state" where
  "normalize_targets env targets s =
     (let s = LOG INFO (''Normalizing target'' @ (if length targets > 1 then ''s:'' else '''')
                         @ '' `'' @ str_join ''`, `'' targets @ ''`'') s;
          command = [''buck'', ''targets'', ''--show-output'']
                    @ targets
                    @ [''--type'', ''python_binary'', ''python_test''];
          (result, w) = check_output_timeout env command 600 (world s);
          s = emit (Check_output command (Some 600)) (s\<lparr>world := w\<rparr>)
      in case result of
           Returned (Completed out) \<Rightarrow>
             (let targets_to_destinations = str_split (CHR ''\<newline>'') (str_strip out);
                  targets_to_destinations = filter (\<lambda>line. line \<noteq> []) targets_to_destinations;
                  targets_to_destinations =
                    map (\<lambda>target. hd (str_split (CHR '' '') target)) targets_to_destinations
              in if targets_to_destinations = []
                 then (Inr [],
                       LOG WARNING
                         ''Provided targets do not contain any binary or unittest targets.'' s)
                 else (Inr targets_to_destinations,
                       LOG INFO (''Found '' @ format_d (length targets_to_destinations)
                                 @ '' buck target''
                                 @ (if length targets_to_destinations > 1 then ''s'' else '''')
                                 @ ''.'') s))
         | TimeoutExpired None \<Rightarrow> (Inl AttributeError, s)
         | TimeoutExpired (Some err) \<Rightarrow>
             (Inl (BuckException
                     (''Seems like `'' @ str_join '' '' (slice_to_minus 1 command)
                      @ ''` is hanging.\<newline>   Try running `buck clean` before trying again.'')),
              LOG ERROR (''Buck output so far: '' @ str_strip err) s)
         | Returned (CalledProcessError err) \<Rightarrow>
             (Inl (BuckException
                     ''Could not normalize targets. Check the paths or run `buck clean`.''),
              LOG ERROR (''Buck returned error: '' @ str_strip err) s))"

section \<open>The builder\<close>

definition build_targets ::
  "'w env \<Rightarrow> string list \<Rightarrow> string list \<Rightarrow> 'w state \<Rightarrow> (exn + unit) \<times> 'w state" where
  "build_targets env targets original_targets s =
     (let s = LOG INFO (''Building target'' @ (if length original_targets > 1 then ''s:'' else '''')
                         @ '' `'' @ str_join ''`, `'' original_targets @ ''`'') s;
          command = [''buck'', ''build''] @ targets;
          (result, w) = check_output env command (world s);
          s = emit (Check_output command None) (s\<lparr>world := w\<rparr>)
      in case result of
           Completed out \<Rightarrow> (Inr (), LOG WARNING ''Finished building targets.'' s)
         | CalledProcessError err \<Rightarrow>
             (let lines = str_splitlines err
              in (Inl (BuckException
                         ''Could not build targets. Check the paths or run `buck clean`.''),
                  LOG ERROR (''Buck returned error: ''
                             @ str_join ''\<newline>'' (slice_from_minus 20 lines)) s)))"

section \<open>Orchestration\<close>

definition ask :: "'w env \<Rightarrow> string \<Rightarrow> 'w state \<Rightarrow> bool \<times> 'w state" where
  "ask env question s =
     (let (answer, w) = get_yes_no_input env question (world s)
      in (answer, emit (Get_yes_no_input question) (s\<lparr>world := w\<rparr>)))"

definition rebuild_and_relocate ::
  "'w env \<Rightarrow> string list \<Rightarrow> string list \<Rightarrow> bool \<Rightarrow> bool \<Rightarrow> buck_out \<times> string list
     \<Rightarrow> 'w state \<Rightarrow> (exn + buck_out \<times> string list) \<times> 'w state" where
  \<comment> \<open>Lines 175 to 180; the pair is \<^verbatim>\<open>(buck_out, source_directories)\<close>. The condition
      is \<^verbatim>\<open>((not build) and (not prompt)) or log.get_yes_no_input(...)\<close>: the right
      operand of \<^verbatim>\<open>or\<close> is evaluated only when the left one is false.\<close>
  "rebuild_and_relocate env targets original_targets build prompt vars s =
     (let (buck_out, source_dirs) = vars
      in if targets_not_found buck_out \<noteq> [] then
           (let (go, s) = (if \<not> build \<and> \<not> prompt then (True, s)
                           else ask env ''Build target?'' s)
            in if go then
                 (case build_targets env targets original_targets s of
                    (Inl e, s) \<Rightarrow> (Inl e, s)
                  | (Inr u, s) \<Rightarrow>
                      (case find_built_source_directories env targets s of
                         (Inl e, s) \<Rightarrow> (Inl e, s)
                       | (Inr buck_out, s) \<Rightarrow> (Inr (buck_out, source_directories buck_out), s)))
               else (Inr (buck_out, source_dirs), s))
         else (Inr (buck_out, source_dirs), s))"

definition link_trees_message :: "string list \<Rightarrow> string \<Rightarrow> string" where
  \<comment> \<open>Lines 188 to 191: the \<^verbatim>\<open>format\<close> call that makes the message of the last
      exception, from \<^verbatim>\<open>message_targets\<close> and \<^verbatim>\<open>sys.argv[0]\<close>.\<close>
  "link_trees_message message_targets program =
     ''Could not find link trees for:\<newline>    `''
     @ str_join ''    \<newline>'' message_targets
     @ ''`.\<newline>   See `'' @ program @ '' --help` for more information.''"

definition generate_source_directories ::
  "'w env \<Rightarrow> string list \<Rightarrow> bool \<Rightarrow> bool \<Rightarrow> 'w state \<Rightarrow> (exn + string list) \<times> 'w state" where
  "generate_source_directories env original_targets build prompt s =
     (case normalize_targets env original_targets s of
        (Inl e, s) \<Rightarrow> (Inl e, s)
      | (Inr targets, s) \<Rightarrow>
     (case (if build then build_targets env targets original_targets s else (Inr (), s)) of
        (Inl e, s) \<Rightarrow> (Inl e, s)
      | (Inr u, s) \<Rightarrow>
     (case find_built_source_directories env targets s of
        (Inl e, s) \<Rightarrow> (Inl e, s)
      | (Inr buck_out, s) \<Rightarrow>
     (case rebuild_and_relocate env targets original_targets build prompt
             (buck_out, source_directories buck_out) s of
        (Inl e, s) \<Rightarrow> (Inl e, s)
      | (Inr (buck_out, source_dirs), s) \<Rightarrow>
          if targets_not_found buck_out \<noteq> [] then
            (let message_targets =
                   map_normalized_targets_to_original (set_order env)
                     (targets_not_found buck_out) original_targets
             in (Inl (BuckException (link_trees_message message_targets (argv0 env))), s))
          else (Inr source_dirs, s)))))"

section \<open>A scripted world\<close>

text \<open>
  An environment for running the module on concrete inputs. The world holds the
  answers the outside gives: what the query and the build return, the build root, for
  each glob pattern the directories it finds now and the ones it finds once a build
  has succeeded, and the user's answer to the prompt. Sets are iterated from the last
  element inserted to the first.
\<close>

record script =
  query_result :: timed
  build_result :: completed
  root :: "string option"
  trees :: "(string \<times> string list) list"
  built_trees :: "(string \<times> string list) list"
  answer :: bool

definition scripted :: "script env" where
  "scripted =
     \<lparr>check_output = (\<lambda>command w.
        (build_result w,
         case build_result w of
           Completed out \<Rightarrow> w\<lparr>trees := built_trees w\<rparr>
         | CalledProcessError err \<Rightarrow> w)),
      check_output_timeout = (\<lambda>command t w. (query_result w, w)),
      find_root = root,
      glob = (\<lambda>pattern w. case map_of (trees w) pattern of None \<Rightarrow> [] | Some ds \<Rightarrow> ds),
      get_yes_no_input = (\<lambda>question w. (answer w, w)),
      argv0 = ''pyre'',
      set_order = rev\<rparr>"

definition start :: "'w \<Rightarrow> 'w state" where
  "start w = \<lparr>world = w, events = [], logged = []\<rparr>"

section \<open>Properties of target attribution\<close>

lemma startswith_prefix: "startswith s p \<longleftrightarrow> prefix p s"
  unfolding startswith_def prefix_def
  by (metis append_eq_conv_conj append_take_drop_id)

lemma endswith_suffix: "endswith s x \<longleftrightarrow> suffix x s"
proof
  assume "endswith s x"
  then have "s = take (length s - length x) s @ x"
    unfolding endswith_def by (metis append_take_drop_id)
  then show "suffix x s" unfolding suffix_def by blast
next
  assume "suffix x s"
  then obtain r where "s = r @ x" unfolding suffix_def by blast
  then show "endswith s x" by (simp add: endswith_def)
qed

lemma endswith_append: "endswith (p @ x) x"
  by (simp add: endswith_def)

lemma slice_to_minus_append: "length x = n \<Longrightarrow> slice_to_minus n (p @ x) = p"
  by (simp add: slice_to_minus_def)

lemma original_matches_wildcard:
  "original_matches target (p @ ''/...'') \<longleftrightarrow> startswith target p"
  by (simp add: original_matches_def endswith_append slice_to_minus_append)

lemma original_matches_self: "original_matches target target"
proof (cases "endswith target ''/...''")
  case True
  then have "startswith target (slice_to_minus 4 target)"
    by (simp add: startswith_def slice_to_minus_def)
  with True show ?thesis by (simp add: original_matches_def)
next
  case False
  then show ?thesis by (simp add: original_matches_def)
qed

lemma scan_originals_step:
  "scan_originals target name (original # rest) =
     scan_originals target (if original_matches target original then Some original else name) rest"
  by (simp add: original_matches_def)

lemma scan_originals_append:
  "scan_originals target name (xs @ ys) = scan_originals target (scan_originals target name xs) ys"
  by (induction xs arbitrary: name) (simp_all del: scan_originals.simps(2) add: scan_originals_step)

lemma scan_originals_no_match:
  "\<forall>original \<in> set originals. \<not> original_matches target original
     \<Longrightarrow> scan_originals target name originals = name"
  by (induction originals arbitrary: name)
     (simp_all del: scan_originals.simps(2) add: scan_originals_step)

lemma scan_originals_filter:
  "scan_originals target name originals =
     (if filter (original_matches target) originals = [] then name
      else Some (last (filter (original_matches target) originals)))"
proof (induction originals rule: rev_induct)
  case Nil
  then show ?case by simp
next
  case (snoc original originals)
  then show ?case
    by (simp add: scan_originals_append scan_originals_step del: scan_originals.simps(2))
qed

lemma scan_originals_Some:
  assumes "scan_originals target None originals = Some name"
  shows "name \<in> set originals \<and> original_matches target name"
proof -
  let ?ms = "filter (original_matches target) originals"
  from assms have ne: "?ms \<noteq> []" and eq: "name = last ?ms"
    by (simp_all add: scan_originals_filter split: if_splits)
  from ne have "last ?ms \<in> set ?ms" by (rule last_in_set)
  with eq show ?thesis by simp
qed

lemma set_foldl_set_add:
  "set (foldl (\<lambda>acc t. set_add acc (f t)) acc0 ts) = set acc0 \<union> f ` set ts"
  by (induction ts arbitrary: acc0) (auto simp: set_add_def)

lemma distinct_foldl_set_add:
  "distinct acc0 \<Longrightarrow> distinct (foldl (\<lambda>acc t. set_add acc (f t)) acc0 ts)"
  by (induction ts arbitrary: acc0) (auto simp: set_add_def)

lemma set_map_normalized_targets_to_original:
  assumes "\<forall>names. mset (iteration_order names) = mset names"
  shows "set (map_normalized_targets_to_original iteration_order unbuilt_targets original_targets)
           = (\<lambda>target. mapped_name target original_targets) ` set unbuilt_targets"
proof -
  have "set (iteration_order names) = set names" for names
    using assms by (metis mset_eq_setD)
  then show ?thesis
    by (simp add: map_normalized_targets_to_original_def Let_def set_foldl_set_add)
qed

lemma distinct_map_normalized_targets_to_original:
  assumes "\<forall>names. mset (iteration_order names) = mset names"
  shows "distinct (map_normalized_targets_to_original iteration_order unbuilt_targets
                     original_targets)"
proof -
  have "distinct (iteration_order names) = distinct names" for names
    using assms by (metis mset_eq_imp_distinct_iff)
  then show ?thesis
    by (simp add: map_normalized_targets_to_original_def Let_def distinct_foldl_set_add)
qed

lemma map_normalized_targets_to_original_single:
  assumes "\<forall>names. mset (iteration_order names) = mset names"
  shows "map_normalized_targets_to_original iteration_order [target] original_targets
           = [mapped_name target original_targets]"
proof -
  have "mset (iteration_order [x]) = {#x#}" for x
    using assms by simp
  then have "iteration_order [x] = [x]" for x
    by simp
  then show ?thesis
    by (simp add: map_normalized_targets_to_original_def Let_def set_add_def)
qed

lemma mapped_name_last_match:
  assumes "original_targets = before @ original # after"
    and "original_matches target original"
    and "\<forall>later \<in> set after. \<not> original_matches target later"
  shows "mapped_name target original_targets = original"
proof -
  have "scan_originals target None original_targets
          = scan_originals target (scan_originals target None before) (original # after)"
    using assms(1) by (simp only: scan_originals_append)
  also have "\<dots> = scan_originals target (Some original) after"
    using assms(2) by (simp only: scan_originals_step if_True)
  also have "\<dots> = Some original"
    using assms(3) by (rule scan_originals_no_match)
  finally show ?thesis
    by (simp add: mapped_name_def)
qed

lemma mapped_name_cases:
  "mapped_name target originals = target
   \<or> (mapped_name target originals \<in> set originals
       \<and> original_matches target (mapped_name target originals))"
proof (cases "scan_originals target None originals")
  case None
  then show ?thesis by (simp add: mapped_name_def)
next
  case (Some n)
  with scan_originals_Some [OF Some] show ?thesis by (simp add: mapped_name_def)
qed

lemma mapped_name_wildcard_prefix:
  assumes "mapped_name target originals = pkg @ ''/...''"
  shows "startswith target pkg"
proof -
  from mapped_name_cases [of target originals]
  have "target = pkg @ ''/...'' \<or> original_matches target (pkg @ ''/...'')"
    unfolding assms by blast
  then show ?thesis
    by (auto simp: original_matches_wildcard startswith_def)
qed

lemma startswith_appendD: "startswith s (p @ q) \<Longrightarrow> startswith s p"
  unfolding startswith_prefix by (rule append_prefixD)

text \<open>
  C7. When several original patterns match an unbuilt target, the name displayed for it
  is the last of them in input order: a pattern that matches and has no matching
  pattern after it is the name, whatever matched before it, by equality or as a
  wildcard. For that target alone the result is exactly that pattern; for any
  unbuilt targets the result is made of the names of the targets, each once, in
  whatever order the set is iterated.
\<close>

theorem attribution_last_match_wins:
  assumes "\<forall>names. mset (iteration_order names) = mset names"
    and "original_targets = before @ original # after"
    and "original_matches target original"
    and "\<forall>later \<in> set after. \<not> original_matches target later"
  shows "mapped_name target original_targets = original
         \<and> map_normalized_targets_to_original iteration_order [target] original_targets
             = [original]
         \<and> set (map_normalized_targets_to_original iteration_order unbuilt_targets
                   original_targets)
             = (\<lambda>t. mapped_name t original_targets) ` set unbuilt_targets
         \<and> distinct (map_normalized_targets_to_original iteration_order unbuilt_targets
                       original_targets)"
proof -
  have name: "mapped_name target original_targets = original"
    using assms(2-4) by (rule mapped_name_last_match)
  have one: "map_normalized_targets_to_original iteration_order [target] original_targets
               = [original]"
    using map_normalized_targets_to_original_single [OF assms(1)] name by simp
  from name one set_map_normalized_targets_to_original [OF assms(1)]
       distinct_map_normalized_targets_to_original [OF assms(1)]
  show ?thesis by blast
qed

theorem attribution_last_match_wins_witness:
  "original_matches ''//a:b'' ''//a:b''
   \<and> original_matches ''//a:b'' ''//a/...''
   \<and> mapped_name ''//a:b'' [''//a:b'', ''//a/...'', ''//c:d''] = ''//a/...''
   \<and> map_normalized_targets_to_original (set_order scripted) [''//a:b'']
         [''//a:b'', ''//a/...'', ''//c:d''] = [''//a/...'']"
proof -
  have h1: "\<forall>names. mset (set_order scripted names) = mset names"
    by (simp add: scripted_def)
  have h2: "[''//a:b'', ''//a/...'', ''//c:d''] = [''//a:b''] @ ''//a/...'' # [''//c:d'']"
    by simp
  have h3: "original_matches ''//a:b'' ''//a/...''" by code_simp
  have h4: "\<forall>later \<in> set [''//c:d'']. \<not> original_matches ''//a:b'' later" by code_simp
  have h5: "original_matches ''//a:b'' ''//a:b''" by (rule original_matches_self)
  from attribution_last_match_wins [OF h1 h2 h3 h4] h3 h5 show ?thesis by simp
qed

text \<open>
  C1, as stated, fails. The pattern \<^verbatim>\<open>//pkg/...\<close> matches the target \<^verbatim>\<open>//pkg:b\<close>, a
  target of the package itself, which does not start with \<^verbatim>\<open>//pkg/\<close>, and is
  displayed for it. It also matches \<^verbatim>\<open>//pkgX/a:b\<close>.
\<close>

theorem wildcard_boundary_counterexample:
  "\<not> startswith ''//pkg:b'' ''//pkg/''
   \<and> original_matches ''//pkg:b'' ''//pkg/...''
   \<and> map_normalized_targets_to_original (set_order scripted) [''//pkg:b''] [''//pkg/...'']
       = [''//pkg/...'']
   \<and> \<not> startswith ''//pkgX/a:b'' ''//pkg/''
   \<and> original_matches ''//pkgX/a:b'' ''//pkg/...''
   \<and> map_normalized_targets_to_original (set_order scripted) [''//pkgX/a:b''] [''//pkg/...'']
       = [''//pkg/...'']"
  by code_simp

text \<open>
  C1, amended. The prefix compared is the wildcard pattern without its last four
  characters, \<^verbatim>\<open>pkg\<close> for \<^verbatim>\<open>pkg/...\<close>, and no separator is required after it: the
  pattern matches a target if and only if the target starts with \<^verbatim>\<open>pkg\<close>. So it
  matches every target that starts with \<^verbatim>\<open>pkg/\<close> and every target that starts with
  \<^verbatim>\<open>pkg:\<close>. Wherever the pattern stands among the original patterns, when no later
  original pattern matches the target, the pattern is the name displayed for the
  target, and the result for that target alone is exactly the pattern, if and only
  if the target starts with \<^verbatim>\<open>pkg\<close>. And the pattern is not in the result when
  no unbuilt target starts with \<^verbatim>\<open>pkg\<close>. This holds in whatever order the set
  of names is iterated.
\<close>

theorem wildcard_matches_package_prefix:
  assumes "\<forall>names. mset (iteration_order names) = mset names"
  shows "(original_matches target (pkg @ ''/...'') \<longleftrightarrow> startswith target pkg)
   \<and> (startswith target (pkg @ ''/'') \<or> startswith target (pkg @ '':'')
        \<longrightarrow> original_matches target (pkg @ ''/...''))
   \<and> ((\<forall>later \<in> set after. \<not> original_matches target later)
        \<longrightarrow> (mapped_name target (before @ (pkg @ ''/...'') # after) = pkg @ ''/...''
               \<longleftrightarrow> startswith target pkg)
            \<and> (map_normalized_targets_to_original iteration_order [target]
                  (before @ (pkg @ ''/...'') # after) = [pkg @ ''/...'']
               \<longleftrightarrow> startswith target pkg))
   \<and> ((\<forall>t \<in> set unbuilt_targets. \<not> startswith t pkg)
        \<longrightarrow> pkg @ ''/...''
              \<notin> set (map_normalized_targets_to_original iteration_order unbuilt_targets
                       original_targets))"
proof (intro conjI impI)
  show m: "original_matches target (pkg @ ''/...'') \<longleftrightarrow> startswith target pkg"
    by (rule original_matches_wildcard)
  show "original_matches target (pkg @ ''/...'')"
    if "startswith target (pkg @ ''/'') \<or> startswith target (pkg @ '':'')"
    using that m by (auto dest: startswith_appendD)
next
  assume later: "\<forall>later \<in> set after. \<not> original_matches target later"
  show name: "mapped_name target (before @ (pkg @ ''/...'') # after) = pkg @ ''/...''
                \<longleftrightarrow> startswith target pkg"
  proof
    assume "mapped_name target (before @ (pkg @ ''/...'') # after) = pkg @ ''/...''"
    then show "startswith target pkg" by (rule mapped_name_wildcard_prefix)
  next
    assume "startswith target pkg"
    then have "original_matches target (pkg @ ''/...'')"
      by (simp add: original_matches_wildcard)
    with later show "mapped_name target (before @ (pkg @ ''/...'') # after) = pkg @ ''/...''"
      by (intro mapped_name_last_match [OF refl])
  qed
  show "map_normalized_targets_to_original iteration_order [target]
          (before @ (pkg @ ''/...'') # after) = [pkg @ ''/...'']
        \<longleftrightarrow> startswith target pkg"
    unfolding map_normalized_targets_to_original_single [OF assms] using name by simp
next
  assume none: "\<forall>t \<in> set unbuilt_targets. \<not> startswith t pkg"
  show "pkg @ ''/...''
          \<notin> set (map_normalized_targets_to_original iteration_order unbuilt_targets
                   original_targets)"
  proof
    assume "pkg @ ''/...''
              \<in> set (map_normalized_targets_to_original iteration_order unbuilt_targets
                       original_targets)"
    then obtain t where t: "t \<in> set unbuilt_targets"
      and n: "mapped_name t original_targets = pkg @ ''/...''"
      unfolding set_map_normalized_targets_to_original [OF assms] by auto
    from n have "startswith t pkg" by (rule mapped_name_wildcard_prefix)
    with none t show False by blast
  qed
qed

theorem wildcard_matches_package_prefix_witness:
  "original_matches ''//pkg/a:b'' ''//pkg/...''
   \<and> original_matches ''//pkg:b'' ''//pkg/...''
   \<and> map_normalized_targets_to_original (set_order scripted) [''//pkg:b'']
         [''//x:y'', ''//pkg/...'', ''//z/...''] = [''//pkg/...'']
   \<and> ''//pkg/...'' \<notin> set (map_normalized_targets_to_original (set_order scripted)
                             [''//other:b'', ''//x:y''] [''//x:y'', ''//pkg/...''])"
proof -
  have h0: "\<forall>names. mset (set_order scripted names) = mset names"
    by (simp add: scripted_def)
  have h1: "startswith ''//pkg/a:b'' (''//pkg'' @ ''/'')
            \<or> startswith ''//pkg/a:b'' (''//pkg'' @ '':'')" by code_simp
  have h2: "startswith ''//pkg:b'' (''//pkg'' @ ''/'')
            \<or> startswith ''//pkg:b'' (''//pkg'' @ '':'')" by code_simp
  have h3: "\<forall>later \<in> set [''//z/...'']. \<not> original_matches ''//pkg:b'' later" by code_simp
  have h4: "startswith ''//pkg:b'' ''//pkg''" by code_simp
  have h5: "\<forall>t \<in> set [''//other:b'', ''//x:y'']. \<not> startswith t ''//pkg''" by code_simp
  from wildcard_matches_package_prefix [OF h0, of "''//pkg/a:b''" "''//pkg''"] h1
  have a: "original_matches ''//pkg/a:b'' (''//pkg'' @ ''/...'')" by blast
  from wildcard_matches_package_prefix [OF h0, of "''//pkg:b''" "''//pkg''"] h2
  have b: "original_matches ''//pkg:b'' (''//pkg'' @ ''/...'')" by blast
  from wildcard_matches_package_prefix
         [OF h0, of "''//pkg:b''" "''//pkg''" "[''//z/...'']" "[''//x:y'']"] h3 h4
  have c: "map_normalized_targets_to_original (set_order scripted) [''//pkg:b'']
             ([''//x:y''] @ (''//pkg'' @ ''/...'') # [''//z/...'']) = [''//pkg'' @ ''/...'']"
    by blast
  from wildcard_matches_package_prefix
         [OF h0, of _ "''//pkg''" _ _ "[''//other:b'', ''//x:y'']" "[''//x:y'', ''//pkg/...'']"]
       h5
  have d: "''//pkg'' @ ''/...''
             \<notin> set (map_normalized_targets_to_original (set_order scripted)
                      [''//other:b'', ''//x:y''] [''//x:y'', ''//pkg/...''])"
    by blast
  from a b c d show ?thesis by simp
qed

text \<open>
  C4, as stated, fails: the unbuilt target \<^verbatim>\<open>//a:b\<close> is equal to the non-wildcard
  original pattern \<^verbatim>\<open>//a:b\<close>, and the result names the later wildcard pattern
  \<^verbatim>\<open>//a/...\<close> for it, not \<^verbatim>\<open>//a:b\<close>.
\<close>

theorem exact_pattern_overridden_counterexample:
  "''//a:b'' \<in> set [''//a:b'', ''//a/...'']
   \<and> \<not> endswith ''//a:b'' ''/...''
   \<and> map_normalized_targets_to_original (set_order scripted) [''//a:b'']
         [''//a:b'', ''//a/...''] = [''//a/...'']
   \<and> ''//a:b'' \<notin> set (map_normalized_targets_to_original (set_order scripted) [''//a:b'']
                         [''//a:b'', ''//a/...''])"
  by code_simp

text \<open>
  C4, amended. For an unbuilt target equal to a non-wildcard original pattern the inner
  loop always ends with a name, so the fallback is not taken, and the result for that
  target alone is exactly that name: the last original pattern, in input order, that
  matches the target. The name is the equal pattern itself when no wildcard pattern
  after it has a prefix of the target; and it is a wildcard pattern that comes after
  the equal pattern and has a prefix of the target, when no original pattern after
  that wildcard pattern matches the target. This holds in whatever order the set of
  names is iterated.
\<close>

theorem exact_pattern_never_falls_back:
  assumes "\<forall>names. mset (iteration_order names) = mset names"
    and "original_targets = before @ target # after"
    and "\<not> endswith target ''/...''"
  shows "scan_originals target None original_targets
           = Some (mapped_name target original_targets)
         \<and> map_normalized_targets_to_original iteration_order [target] original_targets
             = [mapped_name target original_targets]
         \<and> mapped_name target original_targets
             = last (filter (original_matches target) original_targets)
         \<and> mapped_name target original_targets \<in> set original_targets
         \<and> original_matches target (mapped_name target original_targets)
         \<and> ((\<forall>later \<in> set after.
                endswith later ''/...'' \<longrightarrow> \<not> startswith target (slice_to_minus 4 later))
             \<longrightarrow> mapped_name target original_targets = target)
         \<and> (\<forall>between wildcard rest.
               after = between @ wildcard # rest
               \<and> endswith wildcard ''/...''
               \<and> startswith target (slice_to_minus 4 wildcard)
               \<and> (\<forall>later \<in> set rest. \<not> original_matches target later)
               \<longrightarrow> mapped_name target original_targets = wildcard
                   \<and> map_normalized_targets_to_original iteration_order [target]
                         original_targets = [wildcard])"
proof -
  let ?ms = "filter (original_matches target) original_targets"
  have "target \<in> set ?ms"
    using assms(2) by (simp add: original_matches_self)
  then have ne: "?ms \<noteq> []" by (metis empty_iff empty_set)
  then have scan: "scan_originals target None original_targets = Some (last ?ms)"
    by (simp add: scan_originals_filter)
  then have name: "mapped_name target original_targets = last ?ms"
    by (simp add: mapped_name_def)
  from scan_originals_Some [OF scan]
  have mem: "last ?ms \<in> set original_targets" and mat: "original_matches target (last ?ms)"
    by simp_all
  note one = map_normalized_targets_to_original_single [OF assms(1), of target original_targets]
  have later: "last ?ms = target"
    if "\<forall>later \<in> set after.
          endswith later ''/...'' \<longrightarrow> \<not> startswith target (slice_to_minus 4 later)"
  proof -
    have "\<forall>later \<in> set after. later \<noteq> target \<longrightarrow> \<not> original_matches target later"
      using that by (auto simp: original_matches_def)
    then have "filter (original_matches target) after = filter (\<lambda>x. x = target) after"
      by (intro filter_cong) (auto simp: original_matches_self)
    then have "?ms = filter (original_matches target) before
                     @ target # filter (\<lambda>x. x = target) after"
      using assms(2) by (simp add: original_matches_self)
    moreover have "last (target # filter (\<lambda>x. x = target) after) = target"
      by (induction after) auto
    ultimately show ?thesis by (simp del: last.simps)
  qed
  have wild: "mapped_name target original_targets = wildcard"
    if "after = between @ wildcard # rest"
      and "endswith wildcard ''/...''"
      and "startswith target (slice_to_minus 4 wildcard)"
      and "\<forall>later \<in> set rest. \<not> original_matches target later"
    for between wildcard rest
  proof -
    have d: "original_targets = (before @ target # between) @ wildcard # rest"
      using assms(2) that(1) by simp
    have m: "original_matches target wildcard"
      using that(2,3) by (simp add: original_matches_def)
    from d m that(4) show ?thesis by (rule mapped_name_last_match)
  qed
  from scan mem mat later show ?thesis
    unfolding one name [symmetric] using wild name by auto
qed

theorem exact_pattern_never_falls_back_witness:
  "map_normalized_targets_to_original (set_order scripted) [''//a:b'']
      [''//c/...'', ''//a:b'', ''//a:c''] = [''//a:b'']
   \<and> map_normalized_targets_to_original (set_order scripted) [''//a:b'']
      [''//a:b'', ''//c:d'', ''//a/...'', ''//e:f''] = [''//a/...'']
   \<and> map_normalized_targets_to_original (set_order scripted) [''//a:b'']
      [''//a:b'', ''//a/...'', ''//a:b''] = [''//a:b'']"
proof -
  have h0: "\<forall>names. mset (set_order scripted names) = mset names"
    by (simp add: scripted_def)
  have h3: "\<not> endswith ''//a:b'' ''/...''" by code_simp
  have a2: "[''//c/...'', ''//a:b'', ''//a:c''] = [''//c/...''] @ ''//a:b'' # [''//a:c'']"
    by simp
  have a4: "\<forall>later \<in> set [''//a:c''].
              endswith later ''/...'' \<longrightarrow> \<not> startswith ''//a:b'' (slice_to_minus 4 later)"
    by code_simp
  note ra = exact_pattern_never_falls_back [OF h0 a2 h3]
  from ra a4 have "mapped_name ''//a:b'' [''//c/...'', ''//a:b'', ''//a:c''] = ''//a:b''"
    by blast
  with ra have a: "map_normalized_targets_to_original (set_order scripted) [''//a:b'']
                     [''//c/...'', ''//a:b'', ''//a:c''] = [''//a:b'']"
    by simp
  have b2: "[''//a:b'', ''//c:d'', ''//a/...'', ''//e:f'']
              = [] @ ''//a:b'' # [''//c:d'', ''//a/...'', ''//e:f'']"
    by simp
  have b4: "[''//c:d'', ''//a/...'', ''//e:f''] = [''//c:d''] @ ''//a/...'' # [''//e:f'']
            \<and> endswith ''//a/...'' ''/...''
            \<and> startswith ''//a:b'' (slice_to_minus 4 ''//a/...'')
            \<and> (\<forall>later \<in> set [''//e:f'']. \<not> original_matches ''//a:b'' later)"
    by code_simp
  note rb = exact_pattern_never_falls_back [OF h0 b2 h3]
  from rb b4 have b: "map_normalized_targets_to_original (set_order scripted) [''//a:b'']
                        [''//a:b'', ''//c:d'', ''//a/...'', ''//e:f''] = [''//a/...'']"
    by blast
  have c2: "[''//a:b'', ''//a/...'', ''//a:b''] = [''//a:b'', ''//a/...''] @ ''//a:b'' # []"
    by simp
  have c4: "\<forall>later \<in> set [].
              endswith later ''/...'' \<longrightarrow> \<not> startswith ''//a:b'' (slice_to_minus 4 later)"
    by simp
  note rc = exact_pattern_never_falls_back [OF h0 c2 h3]
  from rc c4 have "mapped_name ''//a:b'' [''//a:b'', ''//a/...'', ''//a:b''] = ''//a:b''"
    by blast
  with rc have c: "map_normalized_targets_to_original (set_order scripted) [''//a:b'']
                     [''//a:b'', ''//a/...'', ''//a:b''] = [''//a:b'']"
    by simp
  from a b c show ?thesis by simp
qed

section \<open>Properties of the output locator\<close>

lemma world_emit: "world (emit e s) = world s"
  by (simp add: emit_def)

lemma world_LOG: "world (LOG l msg s) = world s"
  by (simp add: LOG_def)

lemma events_LOG: "events (LOG l msg s) = events s"
  by (simp add: LOG_def)

lemma events_emit: "events (emit e s) = events s @ [e]"
  by (simp add: emit_def)

lemma locate_target_step:
  "locate_target env buck_root (out, s) t =
     (\<lparr>source_directories =
          source_directories out
          @ filter (\<lambda>tree. \<not> excluded_tree tree)
              (glob env (link_tree_pattern buck_root t) (world s)),
       targets_not_found =
          targets_not_found out
          @ (if glob env (link_tree_pattern buck_root t) (world s) = [] then [t] else [])\<rparr>,
      s\<lparr>events := events s @ [Glob (link_tree_pattern buck_root t)]\<rparr>)"
  by (simp add: locate_target_def Let_def emit_def)

lemma foldl_locate_target:
  "foldl (locate_target env buck_root) (out, s) ts =
     (\<lparr>source_directories =
          source_directories out
          @ concat (map (\<lambda>t. filter (\<lambda>tree. \<not> excluded_tree tree)
                                 (glob env (link_tree_pattern buck_root t) (world s))) ts),
       targets_not_found =
          targets_not_found out
          @ filter (\<lambda>t. glob env (link_tree_pattern buck_root t) (world s) = []) ts\<rparr>,
      s\<lparr>events := events s @ map (\<lambda>t. Glob (link_tree_pattern buck_root t)) ts\<rparr>)"
proof (induction ts arbitrary: out s)
  case Nil
  show ?case by simp
next
  case (Cons t ts)
  show ?case
    by (simp only: foldl_Cons locate_target_step Cons.IH) simp
qed

lemma find_built_source_directories_no_root:
  assumes "find_root env (world s) = None"
  shows "find_built_source_directories env targets s =
           (Inl (Exception ''No .buckconfig found in ancestors of the current directory.''),
            emit Find_root s)"
  using assms by (simp add: find_built_source_directories_def Let_def)

lemma find_built_source_directories_root:
  assumes "find_root env (world s) = Some buck_root"
  shows "find_built_source_directories env targets s =
     (Inr \<lparr>source_directories =
             concat (map (\<lambda>t. filter (\<lambda>tree. \<not> excluded_tree tree)
                                 (glob env (link_tree_pattern buck_root t) (world s)))
                       (sort targets)),
           targets_not_found =
             filter (\<lambda>t. glob env (link_tree_pattern buck_root t) (world s) = [])
               (sort targets)\<rparr>,
      s\<lparr>events := events s @ Find_root
                     # map (\<lambda>t. Glob (link_tree_pattern buck_root t)) (sort targets)\<rparr>)"
  using assms
  by (simp add: find_built_source_directories_def Let_def foldl_locate_target world_emit
        events_emit emit_def)

lemma find_built_source_directories_world:
  assumes "find_built_source_directories env targets s = (r, s')"
  shows "world s' = world s \<and> logged s' = logged s"
proof (cases "find_root env (world s)")
  case None
  with assms show ?thesis
    by (auto simp: find_built_source_directories_no_root emit_def)
next
  case (Some buck_root)
  with assms show ?thesis
    by (auto simp: find_built_source_directories_root)
qed

text \<open>
  C2, as stated, fails: for the target \<^verbatim>\<open>//app:bin-interp\<close> the glob finds one
  directory, which ends in \<^verbatim>\<open>-interp#link-tree\<close>. It is left out of the source
  directories, and the target is not recorded as not found.
\<close>

theorem excluded_only_target_counterexample:
  "glob scripted (link_tree_pattern ''/repo'' ''//app:bin-interp'')
      \<lparr>query_result = Returned (Completed []), build_result = Completed [],
       root = Some ''/repo'',
       trees = [(''/repo/buck-out/gen/app/bin-interp#*link-tree'',
                 [''/repo/buck-out/gen/app/bin-interp#link-tree''])],
       built_trees = [], answer = False\<rparr>
     = [''/repo/buck-out/gen/app/bin-interp#link-tree'']
   \<and> excluded_tree ''/repo/buck-out/gen/app/bin-interp#link-tree''
   \<and> fst (find_built_source_directories scripted [''//app:bin-interp'']
        (start \<lparr>query_result = Returned (Completed []), build_result = Completed [],
                root = Some ''/repo'',
                trees = [(''/repo/buck-out/gen/app/bin-interp#*link-tree'',
                          [''/repo/buck-out/gen/app/bin-interp#link-tree''])],
                built_trees = [], answer = False\<rparr>))
     = Inr \<lparr>source_directories = [], targets_not_found = []\<rparr>"
  by code_simp

text \<open>
  C2, amended. When the build root is found, the locator returns, and: no returned
  source directory ends in \<^verbatim>\<open>-vs_debugger#link-tree\<close>, \<^verbatim>\<open>-interp#link-tree\<close> or
  \<^verbatim>\<open>-ipython#link-tree\<close>; the returned directories are the directories the glob finds
  for some target that do not end so; and a target is recorded as not found if and
  only if the glob finds no directory at all for it, before the exclusion. A target
  for which the glob finds directories, all of them excluded, adds no directory and
  is not recorded as not found.
\<close>

theorem locator_excludes_and_not_found:
  assumes "find_root env (world s) = Some buck_root"
  shows "\<exists>out s'.
           find_built_source_directories env targets s = (Inr out, s')
           \<and> (\<forall>tree \<in> set (source_directories out). \<not> excluded_tree tree)
           \<and> set (source_directories out)
               = {tree. \<exists>t \<in> set targets.
                          tree \<in> set (glob env (link_tree_pattern buck_root t) (world s))
                          \<and> \<not> excluded_tree tree}
           \<and> set (targets_not_found out)
               = {t \<in> set targets. glob env (link_tree_pattern buck_root t) (world s) = []}"
  unfolding find_built_source_directories_root [OF assms]
  by (intro exI conjI) (rule refl, auto)

theorem locator_excludes_and_not_found_witness:
  "\<exists>out s'.
     find_built_source_directories scripted [''//app:bin'', ''//app:lib'']
       (start \<lparr>query_result = Returned (Completed []), build_result = Completed [],
               root = Some ''/repo'',
               trees = [(''/repo/buck-out/gen/app/bin#*link-tree'',
                         [''/repo/buck-out/gen/app/bin#link-tree'',
                          ''/repo/buck-out/gen/app/bin#link-tree-interp#link-tree''])],
               built_trees = [], answer = False\<rparr>) = (Inr out, s')
     \<and> set (source_directories out) = {''/repo/buck-out/gen/app/bin#link-tree''}
     \<and> set (targets_not_found out) = {''//app:lib''}"
proof -
  let ?w = "\<lparr>query_result = Returned (Completed []), build_result = Completed [],
               root = Some ''/repo'',
               trees = [(''/repo/buck-out/gen/app/bin#*link-tree'',
                         [''/repo/buck-out/gen/app/bin#link-tree'',
                          ''/repo/buck-out/gen/app/bin#link-tree-interp#link-tree''])],
               built_trees = [], answer = False\<rparr>"
  have h: "find_root scripted (world (start ?w)) = Some ''/repo''"
    by (simp add: scripted_def start_def)
  have bin: "glob scripted (link_tree_pattern ''/repo'' ''//app:bin'') (world (start ?w))
               = [''/repo/buck-out/gen/app/bin#link-tree'',
                  ''/repo/buck-out/gen/app/bin#link-tree-interp#link-tree'']"
    by code_simp
  have lib: "glob scripted (link_tree_pattern ''/repo'' ''//app:lib'') (world (start ?w)) = []"
    by code_simp
  have ex: "excluded_tree ''/repo/buck-out/gen/app/bin#link-tree-interp#link-tree''"
    "\<not> excluded_tree ''/repo/buck-out/gen/app/bin#link-tree''"
    by code_simp+
  have ne: "''//app:bin'' \<noteq> ''//app:lib''" by simp
  from locator_excludes_and_not_found [OF h, of "[''//app:bin'', ''//app:lib'']"]
  obtain out s' where
    r: "find_built_source_directories scripted [''//app:bin'', ''//app:lib''] (start ?w)
          = (Inr out, s')"
    and sd: "set (source_directories out)
               = {tree. \<exists>t \<in> set [''//app:bin'', ''//app:lib''].
                    tree \<in> set (glob scripted (link_tree_pattern ''/repo'' t) (world (start ?w)))
                    \<and> \<not> excluded_tree tree}"
    and nf: "set (targets_not_found out)
               = {t \<in> set [''//app:bin'', ''//app:lib''].
                    glob scripted (link_tree_pattern ''/repo'' t) (world (start ?w)) = []}"
    by blast
  have "set (source_directories out) = {''/repo/buck-out/gen/app/bin#link-tree''}"
    unfolding sd using bin lib ex by auto
  moreover have "set (targets_not_found out) = {''//app:lib''}"
    unfolding nf using bin lib by auto
  ultimately show ?thesis using r by blast
qed

text \<open>
  C10. The locator sorts its targets before it scans them, so two sequences of targets
  that are permutations of each other give the same outcome in the same world: the
  same source directories, the same targets not found, the same calls to the outside.
  The targets not found are listed in sorted order, and the source directories are
  the kept directories of each target, target after target in sorted order.
\<close>

theorem locator_permutation_invariant:
  assumes "mset targets = mset targets'"
  shows "find_built_source_directories env targets s
           = find_built_source_directories env targets' s
         \<and> (\<forall>buck_root out s'.
               find_root env (world s) = Some buck_root
               \<and> find_built_source_directories env targets' s = (Inr out, s')
               \<longrightarrow> sorted (targets_not_found out)
                   \<and> targets_not_found out
                       = filter (\<lambda>t. glob env (link_tree_pattern buck_root t) (world s) = [])
                           (sort targets)
                   \<and> source_directories out
                       = concat (map (\<lambda>t. filter (\<lambda>tree. \<not> excluded_tree tree)
                                   (glob env (link_tree_pattern buck_root t) (world s)))
                           (sort targets)))"
proof -
  have "mset (sort targets') = mset targets" using assms by simp
  then have sort_eq: "sort targets = sort targets'"
    by (rule properties_for_sort) simp
  have same: "find_built_source_directories env targets s
                = find_built_source_directories env targets' s"
    by (cases "find_root env (world s)")
       (simp_all add: find_built_source_directories_no_root
          find_built_source_directories_root sort_eq)
  have "sorted (filter P (sort targets))" for P :: "string \<Rightarrow> bool"
    by (rule sorted_wrt_filter) simp
  with same show ?thesis
    by (auto simp: find_built_source_directories_root sort_eq)
qed

theorem locator_permutation_invariant_witness:
  "find_built_source_directories scripted [''//b:y'', ''//a:x'', ''//c:z'']
     (start \<lparr>query_result = Returned (Completed []), build_result = Completed [],
             root = Some ''/repo'',
             trees = [(''/repo/buck-out/gen/a/x#*link-tree'', [''/repo/buck-out/gen/a/x#link-tree''])],
             built_trees = [], answer = False\<rparr>)
   = find_built_source_directories scripted [''//c:z'', ''//b:y'', ''//a:x'']
     (start \<lparr>query_result = Returned (Completed []), build_result = Completed [],
             root = Some ''/repo'',
             trees = [(''/repo/buck-out/gen/a/x#*link-tree'', [''/repo/buck-out/gen/a/x#link-tree''])],
             built_trees = [], answer = False\<rparr>)
   \<and> fst (find_built_source_directories scripted [''//c:z'', ''//b:y'', ''//a:x'']
     (start \<lparr>query_result = Returned (Completed []), build_result = Completed [],
             root = Some ''/repo'',
             trees = [(''/repo/buck-out/gen/a/x#*link-tree'', [''/repo/buck-out/gen/a/x#link-tree''])],
             built_trees = [], answer = False\<rparr>))
     = Inr \<lparr>source_directories = [''/repo/buck-out/gen/a/x#link-tree''],
            targets_not_found = [''//b:y'', ''//c:z'']\<rparr>"
proof -
  have h: "mset [''//b:y'', ''//a:x'', ''//c:z''] = mset [''//c:z'', ''//b:y'', ''//a:x'']"
    by (simp add: add.commute add.left_commute)
  let ?s = "start \<lparr>query_result = Returned (Completed []), build_result = Completed [],
             root = Some ''/repo'',
             trees = [(''/repo/buck-out/gen/a/x#*link-tree'', [''/repo/buck-out/gen/a/x#link-tree''])],
             built_trees = [], answer = False\<rparr>"
  from locator_permutation_invariant [OF h, of scripted ?s]
  have same: "find_built_source_directories scripted [''//b:y'', ''//a:x'', ''//c:z''] ?s
                = find_built_source_directories scripted [''//c:z'', ''//b:y'', ''//a:x''] ?s"
    by (rule conjunct1)
  have run: "fst (find_built_source_directories scripted [''//c:z'', ''//b:y'', ''//a:x''] ?s)
               = Inr \<lparr>source_directories = [''/repo/buck-out/gen/a/x#link-tree''],
                      targets_not_found = [''//b:y'', ''//c:z'']\<rparr>"
    by code_simp
  from same run show ?thesis by (rule conjI)
qed

section \<open>Properties of the builder\<close>

lemma build_targets_events:
  assumes "build_targets env targets original_targets s = (r, s')"
  shows "events s' = events s @ [Check_output ([''buck'', ''build''] @ targets) None]"
  using assms
  by (auto simp: build_targets_def Let_def LOG_def emit_def split: prod.splits completed.splits)

lemma build_targets_completed:
  assumes "check_output env ([''buck'', ''build''] @ targets) (world s) = (Completed out, w)"
  shows "\<exists>s'. build_targets env targets original_targets s = (Inr (), s') \<and> world s' = w"
  using assms by (simp add: build_targets_def Let_def LOG_def emit_def)

lemma build_targets_failed:
  assumes "check_output env ([''buck'', ''build''] @ targets) (world s)
             = (CalledProcessError err, w)"
  shows "\<exists>s'. build_targets env targets original_targets s
                 = (Inl (BuckException
                           ''Could not build targets. Check the paths or run `buck clean`.''), s')
              \<and> world s' = w
              \<and> logged s'
                  = logged s
                    @ [(INFO, ''Building target''
                              @ (if length original_targets > 1 then ''s:'' else '''')
                              @ '' `'' @ str_join ''`, `'' original_targets @ ''`''),
                       (ERROR, ''Buck returned error: ''
                               @ str_join ''\<newline>''
                                   (slice_from_minus 20 (str_splitlines err)))]"
  using assms by (simp add: build_targets_def Let_def LOG_def emit_def)

lemma slice_from_minus_suffix: "suffix (slice_from_minus n xs) xs"
  by (simp add: slice_from_minus_def suffix_drop)

lemma length_slice_from_minus: "length (slice_from_minus n xs) = min n (length xs)"
  by (simp add: slice_from_minus_def)

text \<open>
  C3, as stated, fails: the build exits non-zero with the diagnostic
  \<^verbatim>\<open>BUILD FAILED: //app:bin\<close> on standard error, and the message of the exception
  raised is the fixed text, in which the diagnostic does not occur.
\<close>

theorem build_failure_message_counterexample:
  "fst (build_targets scripted [''//app:bin''] [''//app:bin'']
          (start \<lparr>query_result = Returned (Completed []),
                  build_result = CalledProcessError ''BUILD FAILED: //app:bin'',
                  root = Some ''/repo'', trees = [], built_trees = [], answer = False\<rparr>))
     = Inl (BuckException ''Could not build targets. Check the paths or run `buck clean`.'')
   \<and> \<not> sublist ''BUILD FAILED: //app:bin''
         ''Could not build targets. Check the paths or run `buck clean`.''"
  by code_simp

text \<open>
  C3, amended. When the external build invocation exits non-zero, the builder raises
  the build-failed exception with the fixed message
  \<^verbatim>\<open>Could not build targets. Check the paths or run `buck clean`.\<close>, and it is the
  record sent to the logger at level ERROR just before that carries the diagnostic:
  the last 20 lines of the captured standard error (all of them when there are
  fewer), joined by newlines, and no more than 20 lines.
\<close>

theorem build_failure_logs_last_20_lines:
  assumes "check_output env ([''buck'', ''build''] @ targets) (world s)
             = (CalledProcessError err, w)"
  shows "\<exists>s'. build_targets env targets original_targets s
                 = (Inl (BuckException
                           ''Could not build targets. Check the paths or run `buck clean`.''), s')
              \<and> last (logged s')
                  = (ERROR, ''Buck returned error: ''
                            @ str_join ''\<newline>''
                                (slice_from_minus 20 (str_splitlines err)))
              \<and> suffix (slice_from_minus 20 (str_splitlines err)) (str_splitlines err)
              \<and> length (slice_from_minus 20 (str_splitlines err))
                  = min 20 (length (str_splitlines err))"
proof -
  from build_targets_failed [OF assms, of original_targets]
  obtain s' where
    r: "build_targets env targets original_targets s
          = (Inl (BuckException
                    ''Could not build targets. Check the paths or run `buck clean`.''), s')"
    and l: "last (logged s')
              = (ERROR, ''Buck returned error: ''
                        @ str_join ''\<newline>'' (slice_from_minus 20 (str_splitlines err)))"
    by auto
  with slice_from_minus_suffix length_slice_from_minus show ?thesis by blast
qed

theorem build_failure_logs_last_20_lines_witness:
  "\<exists>s'. build_targets scripted [''//app:bin''] [''//app:bin'']
          (start \<lparr>query_result = Returned (Completed []),
                  build_result = CalledProcessError
                    ''1\<newline>2\<newline>3\<newline>4\<newline>5\<newline>6\<newline>7\<newline>8\<newline>9\<newline>10\<newline>11\<newline>12\<newline>13\<newline>14\<newline>15\<newline>16\<newline>17\<newline>18\<newline>19\<newline>20\<newline>21\<newline>22\<newline>'',
                  root = Some ''/repo'', trees = [], built_trees = [], answer = False\<rparr>)
        = (Inl (BuckException
                  ''Could not build targets. Check the paths or run `buck clean`.''), s')
      \<and> last (logged s')
          = (ERROR, ''Buck returned error: 3\<newline>4\<newline>5\<newline>6\<newline>7\<newline>8\<newline>9\<newline>10\<newline>11\<newline>12\<newline>13\<newline>14\<newline>15\<newline>16\<newline>17\<newline>18\<newline>19\<newline>20\<newline>21\<newline>22'')"
proof -
  let ?err = "''1\<newline>2\<newline>3\<newline>4\<newline>5\<newline>6\<newline>7\<newline>8\<newline>9\<newline>10\<newline>11\<newline>12\<newline>13\<newline>14\<newline>15\<newline>16\<newline>17\<newline>18\<newline>19\<newline>20\<newline>21\<newline>22\<newline>''"
  let ?w = "\<lparr>query_result = Returned (Completed []),
             build_result = CalledProcessError ?err,
             root = Some ''/repo'', trees = [], built_trees = [], answer = False\<rparr>"
  have h: "check_output scripted ([''buck'', ''build''] @ [''//app:bin'']) (world (start ?w))
             = (CalledProcessError ?err, ?w)"
    by (simp add: scripted_def start_def)
  have lines: "''Buck returned error: ''
                 @ str_join ''\<newline>'' (slice_from_minus 20 (str_splitlines ?err))
               = ''Buck returned error: 3\<newline>4\<newline>5\<newline>6\<newline>7\<newline>8\<newline>9\<newline>10\<newline>11\<newline>12\<newline>13\<newline>14\<newline>15\<newline>16\<newline>17\<newline>18\<newline>19\<newline>20\<newline>21\<newline>22''"
    by code_simp
  from build_failure_logs_last_20_lines [OF h, of "[''//app:bin'']"]
  show ?thesis unfolding lines by blast
qed

section \<open>Properties of the normalizer\<close>

lemma str_split_not_Nil: "str_split sep s \<noteq> []"
  by (induction s) (auto split: list.splits)

lemma hd_str_split: "hd (str_split sep s) = takeWhile (\<lambda>c. c \<noteq> sep) s"
  using str_split_not_Nil [of sep]
  by (induction s) (auto split: list.splits)

lemma normalize_targets_events:
  assumes "normalize_targets env targets s = (r, s')"
  shows "events s' = events s
           @ [Check_output ([''buck'', ''targets'', ''--show-output''] @ targets
                            @ [''--type'', ''python_binary'', ''python_test'']) (Some 600)]"
  using assms
  by (auto simp: normalize_targets_def Let_def LOG_def emit_def
           split: prod.splits timed.splits completed.splits option.splits if_splits)

lemma str_strip_all_space:
  assumes "\<forall>c \<in> set out. is_space c"
  shows "str_strip out = []"
proof -
  from assms have d: "dropWhile is_space out = []" by (simp add: dropWhile_eq_Nil_conv)
  show ?thesis unfolding str_strip_def d by simp
qed

lemma normalize_targets_no_lines:
  assumes "check_output_timeout env
             ([''buck'', ''targets'', ''--show-output''] @ targets
              @ [''--type'', ''python_binary'', ''python_test'']) 600 (world s)
           = (Returned (Completed out), w)"
    and "\<forall>c \<in> set out. is_space c"
  shows "\<exists>s'. normalize_targets env targets s = (Inr [], s') \<and> world s' = w
              \<and> last (logged s')
                  = (WARNING, ''Provided targets do not contain any binary or unittest targets.'')"
  using assms(1) str_strip_all_space [OF assms(2)]
  by (simp add: normalize_targets_def Let_def LOG_def emit_def)

section \<open>Properties of the orchestration\<close>

lemma find_built_source_directories_events:
  assumes "find_built_source_directories env targets s = (r, s')"
  shows "\<exists>patterns. events s' = events s @ Find_root # map Glob patterns"
proof (cases "find_root env (world s)")
  case None
  with assms have "events s' = events s @ Find_root # map Glob []"
    by (auto simp: find_built_source_directories_no_root emit_def)
  then show ?thesis by blast
next
  case (Some buck_root)
  with assms have "events s' = events s @ Find_root
                     # map Glob (map (link_tree_pattern buck_root) (sort targets))"
    by (auto simp: find_built_source_directories_root)
  then show ?thesis by blast
qed

lemma rebuild_and_relocate_forced:
  assumes "targets_not_found buck_out \<noteq> []"
  shows "rebuild_and_relocate env targets original_targets False False (buck_out, dirs) s =
           (case build_targets env targets original_targets s of
              (Inl e, s) \<Rightarrow> (Inl e, s)
            | (Inr u, s) \<Rightarrow>
                (case find_built_source_directories env targets s of
                   (Inl e, s) \<Rightarrow> (Inl e, s)
                 | (Inr buck_out, s) \<Rightarrow> (Inr (buck_out, source_directories buck_out), s)))"
  using assms by (simp add: rebuild_and_relocate_def)

lemma rebuild_and_relocate_found:
  assumes "targets_not_found buck_out = []"
  shows "rebuild_and_relocate env targets original_targets build prompt (buck_out, dirs) s
           = (Inr (buck_out, dirs), s)"
  using assms by (simp add: rebuild_and_relocate_def)

lemma rebuild_and_relocate_Inr:
  assumes "rebuild_and_relocate env targets original_targets build prompt
             (out0, source_directories out0) s = (Inr (out, dirs), s')"
  shows "dirs = source_directories out"
    and "targets_not_found out = []
           \<Longrightarrow> \<exists>s0. find_built_source_directories env targets s0 = (Inr out, s')
                     \<or> (out = out0 \<and> s' = s)"
  using assms
  by (auto simp: rebuild_and_relocate_def Let_def
           split: if_splits prod.splits sum.splits)

text \<open>
  C5. With the build flag false and prompting disallowed, when the first location pass
  reports a target not found, the orchestration makes no call to the prompt, and it
  runs the build of the normalized targets at once. The second location pass follows
  the build: when the build returns, the outcome of the orchestration is the outcome
  of that second pass; the build raising its exception is the only way the second
  pass is not run.
\<close>

theorem forced_rebuild_without_prompt:
  assumes norm: "normalize_targets env original_targets s = (Inr targets, s1)"
    and loc: "find_built_source_directories env targets s1 = (Inr buck_out, s2)"
    and nf: "targets_not_found buck_out \<noteq> []"
    and reb: "build_targets env targets original_targets s2 = (rebuilt, s3)"
    and reloc: "find_built_source_directories env targets s3 = (relocated, s4)"
    and gen: "generate_source_directories env original_targets False False s = (result, s')"
  shows "(\<forall>question. Get_yes_no_input question \<notin> set (drop (length (events s)) (events s')))
         \<and> events s3 = events s2 @ [Check_output ([''buck'', ''build''] @ targets) None]
         \<and> prefix (events s3) (events s')
         \<and> (case rebuilt of
               Inl e \<Rightarrow> result = Inl e \<and> s' = s3
             | Inr u \<Rightarrow>
                 s' = s4
                 \<and> (\<exists>patterns. events s' = events s3 @ Find_root # map Glob patterns)
                 \<and> (case relocated of
                       Inl e \<Rightarrow> result = Inl e
                     | Inr out \<Rightarrow>
                         result =
                           (if targets_not_found out \<noteq> [] then
                              Inl (BuckException
                                     (link_trees_message
                                        (map_normalized_targets_to_original (set_order env)
                                           (targets_not_found out) original_targets)
                                        (argv0 env)))
                            else Inr (source_directories out))))"
proof -
  from normalize_targets_events [OF norm] obtain q where e1: "events s1 = events s @ [Check_output q (Some 600)]"
    by blast
  from find_built_source_directories_events [OF loc]
  obtain p1 where e2: "events s2 = events s1 @ Find_root # map Glob p1" by blast
  note e3 = build_targets_events [OF reb]
  from find_built_source_directories_events [OF reloc]
  obtain p2 where e4: "events s4 = events s3 @ Find_root # map Glob p2" by blast
  have out: "(case rebuilt of
               Inl e \<Rightarrow> result = Inl e \<and> s' = s3
             | Inr u \<Rightarrow>
                 s' = s4
                 \<and> (case relocated of
                       Inl e \<Rightarrow> result = Inl e
                     | Inr out \<Rightarrow>
                         result =
                           (if targets_not_found out \<noteq> [] then
                              Inl (BuckException
                                     (link_trees_message
                                        (map_normalized_targets_to_original (set_order env)
                                           (targets_not_found out) original_targets)
                                        (argv0 env)))
                            else Inr (source_directories out))))"
    using gen
    by (auto simp: generate_source_directories_def norm loc rebuild_and_relocate_forced [OF nf]
          reb reloc Let_def split: sum.splits if_splits)
  have fin: "s' = s3 \<or> s' = s4"
    using out by (cases rebuilt) simp_all
  have no_prompt: "\<forall>question. Get_yes_no_input question
                      \<notin> set (drop (length (events s)) (events s'))"
    using fin by (auto simp: e1 e2 e3 e4)
  have pre: "prefix (events s3) (events s')"
    using fin by (auto simp: e4)
  from out e4 have out': "(case rebuilt of
               Inl e \<Rightarrow> result = Inl e \<and> s' = s3
             | Inr u \<Rightarrow>
                 s' = s4
                 \<and> (\<exists>patterns. events s' = events s3 @ Find_root # map Glob patterns)
                 \<and> (case relocated of
                       Inl e \<Rightarrow> result = Inl e
                     | Inr out \<Rightarrow>
                         result =
                           (if targets_not_found out \<noteq> [] then
                              Inl (BuckException
                                     (link_trees_message
                                        (map_normalized_targets_to_original (set_order env)
                                           (targets_not_found out) original_targets)
                                        (argv0 env)))
                            else Inr (source_directories out))))"
    by (cases rebuilt) auto
  from no_prompt e3 pre out' show ?thesis by blast
qed

theorem forced_rebuild_without_prompt_witness:
  "fst (generate_source_directories scripted [''//app:bin''] False False
          (start \<lparr>query_result = Returned (Completed ''//app:bin //app:bin.par\<newline>''),
                  build_result = Completed [], root = Some ''/repo'', trees = [],
                  built_trees = [(''/repo/buck-out/gen/app/bin#*link-tree'',
                                  [''/repo/buck-out/gen/app/bin#link-tree''])],
                  answer = False\<rparr>))
     = Inr [''/repo/buck-out/gen/app/bin#link-tree'']
   \<and> (\<forall>question. Get_yes_no_input question
          \<notin> set (events (snd (generate_source_directories scripted [''//app:bin''] False False
               (start \<lparr>query_result = Returned (Completed ''//app:bin //app:bin.par\<newline>''),
                       build_result = Completed [], root = Some ''/repo'', trees = [],
                       built_trees = [(''/repo/buck-out/gen/app/bin#*link-tree'',
                                       [''/repo/buck-out/gen/app/bin#link-tree''])],
                       answer = False\<rparr>)))))"
proof -
  let ?s = "start \<lparr>query_result = Returned (Completed ''//app:bin //app:bin.par\<newline>''),
                   build_result = Completed [], root = Some ''/repo'', trees = [],
                   built_trees = [(''/repo/buck-out/gen/app/bin#*link-tree'',
                                   [''/repo/buck-out/gen/app/bin#link-tree''])],
                   answer = False\<rparr>"
  let ?ts = "[''//app:bin'']"
  let ?n = "normalize_targets scripted ?ts ?s"
  let ?l = "find_built_source_directories scripted ?ts (snd ?n)"
  let ?b = "build_targets scripted ?ts ?ts (snd ?l)"
  let ?r = "find_built_source_directories scripted ?ts (snd ?b)"
  let ?g = "generate_source_directories scripted ?ts False False ?s"
  have "fst ?n = Inr ?ts" by code_simp
  then have n: "?n = (Inr ?ts, snd ?n)" by (simp add: prod_eq_iff)
  have "fst ?l = Inr \<lparr>source_directories = [], targets_not_found = ?ts\<rparr>" by code_simp
  then have l: "?l = (Inr \<lparr>source_directories = [], targets_not_found = ?ts\<rparr>, snd ?l)"
    by (simp add: prod_eq_iff)
  have nf: "targets_not_found \<lparr>source_directories = [], targets_not_found = ?ts\<rparr> \<noteq> []"
    by simp
  have "fst ?b = Inr ()" by code_simp
  then have b: "?b = (Inr (), snd ?b)" by (simp add: prod_eq_iff)
  have "fst ?r = Inr \<lparr>source_directories = [''/repo/buck-out/gen/app/bin#link-tree''],
                       targets_not_found = []\<rparr>" by code_simp
  then have r: "?r = (Inr \<lparr>source_directories = [''/repo/buck-out/gen/app/bin#link-tree''],
                            targets_not_found = []\<rparr>, snd ?r)"
    by (simp add: prod_eq_iff)
  have g: "?g = (fst ?g, snd ?g)" by simp
  have e: "events ?s = []" by (simp add: start_def)
  note t = forced_rebuild_without_prompt [OF n l nf b r g]
  from t have "\<forall>question. Get_yes_no_input question
                 \<notin> set (drop (length (events ?s)) (events (snd ?g)))"
    by (rule conjunct1)
  then have np: "\<forall>question. Get_yes_no_input question \<notin> set (events (snd ?g))"
    by (simp add: e)
  from t have res: "fst ?g = Inr [''/repo/buck-out/gen/app/bin#link-tree'']"
    by simp
  from res np show ?thesis by (rule conjI)
qed

lemma find_built_source_directories_Inr:
  assumes "find_built_source_directories env targets s = (Inr out, s')"
  shows "\<exists>buck_root.
           find_root env (world s') = Some buck_root
           \<and> source_directories out
               = concat (map (\<lambda>t. filter (\<lambda>tree. \<not> excluded_tree tree)
                                  (glob env (link_tree_pattern buck_root t) (world s')))
                           (sort targets))
           \<and> targets_not_found out
               = filter (\<lambda>t. glob env (link_tree_pattern buck_root t) (world s') = [])
                   (sort targets)"
proof (cases "find_root env (world s)")
  case None
  with assms show ?thesis by (simp add: find_built_source_directories_no_root)
next
  case (Some buck_root)
  from find_built_source_directories_world [OF assms] have w: "world s' = world s" by simp
  from assms Some show ?thesis
    unfolding w by (auto simp: find_built_source_directories_root)
qed

text \<open>
  C8, as stated, fails: the query exits with status zero and prints nothing, so the
  normalizer returns the empty sequence; the build flag is set, the build invoked
  with no target exits non-zero, and the orchestration ends with the build-failed
  exception.
\<close>

theorem empty_normalization_counterexample:
  "fst (normalize_targets scripted [''//lib/...'']
          (start \<lparr>query_result = Returned (Completed []),
                  build_result = CalledProcessError ''Must specify at least one build target.'',
                  root = Some ''/repo'', trees = [], built_trees = [], answer = False\<rparr>))
     = Inr []
   \<and> fst (generate_source_directories scripted [''//lib/...''] True False
          (start \<lparr>query_result = Returned (Completed []),
                  build_result = CalledProcessError ''Must specify at least one build target.'',
                  root = Some ''/repo'', trees = [], built_trees = [], answer = False\<rparr>))
     = Inl (BuckException ''Could not build targets. Check the paths or run `buck clean`.'')"
  by code_simp

text \<open>
  C8, amended. When the external query succeeds and its output holds no target line
  (nothing but white space), normalization returns the empty sequence without raising,
  with a warning. The orchestration then returns the empty list of directories,
  without a prompt, provided that the build, which is still invoked (with no target)
  when the build flag is set, exits with status zero, and that the build root is
  found. The empty result alone is never a failure.
\<close>

theorem empty_normalization_returns_empty:
  assumes q: "check_output_timeout env
                ([''buck'', ''targets'', ''--show-output''] @ original_targets
                 @ [''--type'', ''python_binary'', ''python_test'']) 600 (world s)
              = (Returned (Completed out), w)"
    and sp: "\<forall>c \<in> set out. is_space c"
    and b: "if build then (\<exists>out'. check_output env [''buck'', ''build''] w = (Completed out', w'))
            else w' = w"
    and r: "find_root env w' = Some buck_root"
  shows "\<exists>s1 s'.
           normalize_targets env original_targets s = (Inr [], s1)
           \<and> last (logged s1)
               = (WARNING, ''Provided targets do not contain any binary or unittest targets.'')
           \<and> generate_source_directories env original_targets build prompt s = (Inr [], s')
           \<and> world s' = w'
           \<and> (\<forall>question. Get_yes_no_input question \<notin> set (drop (length (events s)) (events s')))"
proof -
  from normalize_targets_no_lines [OF q sp]
  obtain s1 where n: "normalize_targets env original_targets s = (Inr [], s1)"
    and w1: "world s1 = w"
    and l1: "last (logged s1)
               = (WARNING, ''Provided targets do not contain any binary or unittest targets.'')"
    by blast
  note e1 = normalize_targets_events [OF n]
  have "\<exists>s2. (if build then build_targets env [] original_targets s1 else (Inr (), s1))
                = (Inr (), s2)
              \<and> world s2 = w'
              \<and> (\<forall>question. Get_yes_no_input question
                    \<notin> set (drop (length (events s)) (events s2)))"
  proof (cases build)
    case True
    with b obtain out' where "check_output env [''buck'', ''build''] w = (Completed out', w')"
      by auto
    then have "check_output env ([''buck'', ''build''] @ []) (world s1) = (Completed out', w')"
      by (simp add: w1)
    from build_targets_completed [OF this, of original_targets]
    obtain s2 where b2: "build_targets env [] original_targets s1 = (Inr (), s2)"
      and w2: "world s2 = w'" by blast
    from build_targets_events [OF b2] e1 True b2 w2 show ?thesis by auto
  next
    case False
    with b w1 e1 show ?thesis by auto
  qed
  then obtain s2 where
    b2: "(if build then build_targets env [] original_targets s1 else (Inr (), s1)) = (Inr (), s2)"
    and w2: "world s2 = w'"
    and e2: "\<forall>question. Get_yes_no_input question \<notin> set (drop (length (events s)) (events s2))"
    by blast
  from r w2 have r2: "find_root env (world s2) = Some buck_root" by simp
  let ?s3 = "s2\<lparr>events := events s2 @ [Find_root]\<rparr>"
  have f: "find_built_source_directories env [] s2
             = (Inr \<lparr>source_directories = [], targets_not_found = []\<rparr>, ?s3)"
    by (simp add: find_built_source_directories_root [OF r2])
  have g: "generate_source_directories env original_targets build prompt s = (Inr [], ?s3)"
    by (simp add: generate_source_directories_def n b2 f rebuild_and_relocate_found)
  have e3: "\<forall>question. Get_yes_no_input question
               \<notin> set (drop (length (events s)) (events ?s3))"
    using e2 by (auto simp: drop_append dest: in_set_dropD)
  from n l1 g w2 e3 show ?thesis by auto
qed

theorem empty_normalization_returns_empty_witness:
  "fst (generate_source_directories scripted [''//lib/...''] True True
          (start \<lparr>query_result = Returned (Completed ''\<newline>''), build_result = Completed [],
                  root = Some ''/repo'', trees = [], built_trees = [], answer = False\<rparr>))
     = Inr []
   \<and> fst (generate_source_directories scripted [''//lib/...''] False False
          (start \<lparr>query_result = Returned (Completed ''\<newline>''), build_result = Completed [],
                  root = Some ''/repo'', trees = [], built_trees = [], answer = False\<rparr>))
     = Inr []"
proof -
  let ?w = "\<lparr>query_result = Returned (Completed ''\<newline>''), build_result = Completed [],
             root = Some ''/repo'', trees = [], built_trees = [], answer = False\<rparr>"
  have q: "check_output_timeout scripted
             ([''buck'', ''targets'', ''--show-output''] @ [''//lib/...'']
              @ [''--type'', ''python_binary'', ''python_test'']) 600 (world (start ?w))
           = (Returned (Completed ''\<newline>''), ?w)"
    by (simp add: scripted_def start_def)
  have sp: "\<forall>c \<in> set ''\<newline>''. is_space c" by code_simp
  have b1: "if True then (\<exists>out'. check_output scripted [''buck'', ''build''] ?w
                                   = (Completed out', ?w))
            else ?w = ?w"
    by (simp add: scripted_def)
  have b2: "if False then (\<exists>out'. check_output scripted [''buck'', ''build''] ?w
                                    = (Completed out', ?w))
            else ?w = ?w"
    by simp
  have r: "find_root scripted ?w = Some ''/repo''" by (simp add: scripted_def)
  from empty_normalization_returns_empty [OF q sp b1 r, of True]
  have one: "fst (generate_source_directories scripted [''//lib/...''] True True (start ?w))
               = Inr []"
    by auto
  from empty_normalization_returns_empty [OF q sp b2 r, of False]
  have two: "fst (generate_source_directories scripted [''//lib/...''] False False (start ?w))
               = Inr []"
    by auto
  from one two show ?thesis by (rule conjI)
qed

text \<open>
  C9. The entry point has no partial success. Whenever it returns a list, the list is
  the outcome of a location pass over all the normalized targets that found every
  one of them: in the final world the glob finds a directory for each normalized
  target, the list is made of the kept directories of every target, and the list of
  targets not found of that pass is empty. And whenever the retry path ends with a
  target not found, the entry point raises the exception that names the attributed
  patterns; it returns nothing.
\<close>

theorem no_partial_success:
  assumes gen: "generate_source_directories env original_targets build prompt s = (result, s')"
  shows "(\<forall>dirs. result = Inr dirs \<longrightarrow>
            (\<exists>targets s1 s0 buck_root.
               normalize_targets env original_targets s = (Inr targets, s1)
               \<and> find_built_source_directories env targets s0
                   = (Inr \<lparr>source_directories = dirs, targets_not_found = []\<rparr>, s')
               \<and> find_root env (world s') = Some buck_root
               \<and> (\<forall>t \<in> set targets.
                     glob env (link_tree_pattern buck_root t) (world s') \<noteq> [])
               \<and> dirs = concat (map (\<lambda>t. filter (\<lambda>tree. \<not> excluded_tree tree)
                                         (glob env (link_tree_pattern buck_root t) (world s')))
                                  (sort targets))))
         \<and> (\<forall>targets s1 s2 out0 s3 out dirs s4.
               normalize_targets env original_targets s = (Inr targets, s1)
               \<and> (if build then build_targets env targets original_targets s1 else (Inr (), s1))
                   = (Inr (), s2)
               \<and> find_built_source_directories env targets s2 = (Inr out0, s3)
               \<and> rebuild_and_relocate env targets original_targets build prompt
                     (out0, source_directories out0) s3 = (Inr (out, dirs), s4)
               \<and> targets_not_found out \<noteq> []
               \<longrightarrow> result = Inl (BuckException
                                   (link_trees_message
                                      (map_normalized_targets_to_original (set_order env)
                                         (targets_not_found out) original_targets)
                                      (argv0 env))))"
proof (intro conjI allI impI)
  fix dirs
  assume res: "result = Inr dirs"
  from gen res obtain targets s1 s2 out0 s3 out where
    n: "normalize_targets env original_targets s = (Inr targets, s1)"
    and f: "find_built_source_directories env targets s2 = (Inr out0, s3)"
    and rr: "rebuild_and_relocate env targets original_targets build prompt
               (out0, source_directories out0) s3 = (Inr (out, dirs), s')"
    and nf: "targets_not_found out = []"
    by (auto simp: generate_source_directories_def Let_def
             split: prod.splits sum.splits if_splits)
  from rebuild_and_relocate_Inr(1) [OF rr] have d: "dirs = source_directories out" .
  from rebuild_and_relocate_Inr(2) [OF rr nf] f
  obtain s0 where f0: "find_built_source_directories env targets s0 = (Inr out, s')"
    by blast
  from find_built_source_directories_Inr [OF f0] obtain buck_root where
    r: "find_root env (world s') = Some buck_root"
    and sd: "source_directories out
               = concat (map (\<lambda>t. filter (\<lambda>tree. \<not> excluded_tree tree)
                                  (glob env (link_tree_pattern buck_root t) (world s')))
                           (sort targets))"
    and tnf: "targets_not_found out
               = filter (\<lambda>t. glob env (link_tree_pattern buck_root t) (world s') = [])
                   (sort targets)"
    by blast
  from tnf nf have all: "\<forall>t \<in> set targets.
                          glob env (link_tree_pattern buck_root t) (world s') \<noteq> []"
    by (simp add: filter_empty_conv empty_filter_conv)
  have out: "out = \<lparr>source_directories = dirs, targets_not_found = []\<rparr>"
    using d nf by simp
  from f0 out have f1: "find_built_source_directories env targets s0
                          = (Inr \<lparr>source_directories = dirs, targets_not_found = []\<rparr>, s')"
    by simp
  from sd d have sd1: "dirs = concat (map (\<lambda>t. filter (\<lambda>tree. \<not> excluded_tree tree)
                                         (glob env (link_tree_pattern buck_root t) (world s')))
                                  (sort targets))"
    by simp
  from n f1 r all sd1 show "\<exists>targets s1 s0 buck_root.
               normalize_targets env original_targets s = (Inr targets, s1)
               \<and> find_built_source_directories env targets s0
                   = (Inr \<lparr>source_directories = dirs, targets_not_found = []\<rparr>, s')
               \<and> find_root env (world s') = Some buck_root
               \<and> (\<forall>t \<in> set targets.
                     glob env (link_tree_pattern buck_root t) (world s') \<noteq> [])
               \<and> dirs = concat (map (\<lambda>t. filter (\<lambda>tree. \<not> excluded_tree tree)
                                         (glob env (link_tree_pattern buck_root t) (world s')))
                                  (sort targets))"
    by blast
next
  fix targets s1 s2 out0 s3 out dirs s4
  assume "normalize_targets env original_targets s = (Inr targets, s1)
               \<and> (if build then build_targets env targets original_targets s1 else (Inr (), s1))
                   = (Inr (), s2)
               \<and> find_built_source_directories env targets s2 = (Inr out0, s3)
               \<and> rebuild_and_relocate env targets original_targets build prompt
                     (out0, source_directories out0) s3 = (Inr (out, dirs), s4)
               \<and> targets_not_found out \<noteq> []"
  with gen show "result = Inl (BuckException
                                   (link_trees_message
                                      (map_normalized_targets_to_original (set_order env)
                                         (targets_not_found out) original_targets)
                                      (argv0 env)))"
    by (auto simp: generate_source_directories_def Let_def)
qed

theorem no_partial_success_witness:
  "(\<exists>targets s1 s0 buck_root.
      normalize_targets scripted [''//app:bin'']
        (start \<lparr>query_result = Returned (Completed ''//app:bin //app:bin.par\<newline>''),
                build_result = Completed [], root = Some ''/repo'', trees = [],
                built_trees = [(''/repo/buck-out/gen/app/bin#*link-tree'',
                                [''/repo/buck-out/gen/app/bin#link-tree''])],
                answer = False\<rparr>) = (Inr targets, s1)
      \<and> find_built_source_directories scripted targets s0
          = (Inr \<lparr>source_directories = [''/repo/buck-out/gen/app/bin#link-tree''],
                  targets_not_found = []\<rparr>,
             snd (generate_source_directories scripted [''//app:bin''] False False
               (start \<lparr>query_result = Returned (Completed ''//app:bin //app:bin.par\<newline>''),
                       build_result = Completed [], root = Some ''/repo'', trees = [],
                       built_trees = [(''/repo/buck-out/gen/app/bin#*link-tree'',
                                       [''/repo/buck-out/gen/app/bin#link-tree''])],
                       answer = False\<rparr>))))
   \<and> fst (generate_source_directories scripted [''//lib/...''] False True
          (start \<lparr>query_result = Returned (Completed
                     ''//lib:a //lib:a.par\<newline>//lib:b //lib:b.par\<newline>''),
                  build_result = Completed [], root = Some ''/repo'',
                  trees = [(''/repo/buck-out/gen/lib/a#*link-tree'',
                            [''/repo/buck-out/gen/lib/a#link-tree''])],
                  built_trees = [], answer = False\<rparr>))
     = Inl (BuckException (link_trees_message [''//lib/...''] ''pyre''))"
proof -
  let ?s1 = "start \<lparr>query_result = Returned (Completed ''//app:bin //app:bin.par\<newline>''),
                build_result = Completed [], root = Some ''/repo'', trees = [],
                built_trees = [(''/repo/buck-out/gen/app/bin#*link-tree'',
                                [''/repo/buck-out/gen/app/bin#link-tree''])],
                answer = False\<rparr>"
  let ?g1 = "generate_source_directories scripted [''//app:bin''] False False ?s1"
  have "fst ?g1 = Inr [''/repo/buck-out/gen/app/bin#link-tree'']" by code_simp
  then have g1: "?g1 = (Inr [''/repo/buck-out/gen/app/bin#link-tree''], snd ?g1)"
    by (simp add: prod_eq_iff)
  from no_partial_success [OF g1, THEN conjunct1]
  have one: "\<exists>targets s1 s0 buck_root.
      normalize_targets scripted [''//app:bin''] ?s1 = (Inr targets, s1)
      \<and> find_built_source_directories scripted targets s0
          = (Inr \<lparr>source_directories = [''/repo/buck-out/gen/app/bin#link-tree''],
                  targets_not_found = []\<rparr>, snd ?g1)"
    by blast
  let ?s2 = "start \<lparr>query_result = Returned (Completed
                     ''//lib:a //lib:a.par\<newline>//lib:b //lib:b.par\<newline>''),
                  build_result = Completed [], root = Some ''/repo'',
                  trees = [(''/repo/buck-out/gen/lib/a#*link-tree'',
                            [''/repo/buck-out/gen/lib/a#link-tree''])],
                  built_trees = [], answer = False\<rparr>"
  let ?os = "[''//lib/...'']"
  let ?ts = "[''//lib:a'', ''//lib:b'']"
  let ?out = "\<lparr>source_directories = [''/repo/buck-out/gen/lib/a#link-tree''],
               targets_not_found = [''//lib:b'']\<rparr>"
  let ?n = "normalize_targets scripted ?os ?s2"
  let ?f = "find_built_source_directories scripted ?ts (snd ?n)"
  let ?r = "rebuild_and_relocate scripted ?ts ?os False True
              (?out, source_directories ?out) (snd ?f)"
  let ?g2 = "generate_source_directories scripted ?os False True ?s2"
  have "fst ?n = Inr ?ts" by code_simp
  then have n: "?n = (Inr ?ts, snd ?n)" by (simp add: prod_eq_iff)
  have b: "(if False then build_targets scripted ?ts ?os (snd ?n) else (Inr (), snd ?n))
             = (Inr (), snd ?n)"
    by simp
  have "fst ?f = Inr ?out" by code_simp
  then have f: "?f = (Inr ?out, snd ?f)" by (simp add: prod_eq_iff)
  have "fst ?r = Inr (?out, [''/repo/buck-out/gen/lib/a#link-tree''])" by code_simp
  then have r: "?r = (Inr (?out, [''/repo/buck-out/gen/lib/a#link-tree'']), snd ?r)"
    by (simp add: prod_eq_iff)
  have nf: "targets_not_found ?out \<noteq> []" by simp
  have g2: "?g2 = (fst ?g2, snd ?g2)" by simp
  have m: "map_normalized_targets_to_original (set_order scripted) (targets_not_found ?out) ?os
             = [''//lib/...'']"
    by code_simp
  have a: "argv0 scripted = ''pyre''" by (simp add: scripted_def)
  from no_partial_success [OF g2, THEN conjunct2, rule_format,
         OF conjI [OF n conjI [OF b conjI [OF f conjI [OF r nf]]]]]
  have two: "fst ?g2 = Inl (BuckException (link_trees_message [''//lib/...''] ''pyre''))"
    unfolding m a .
  from one two show ?thesis by (rule conjI)
qed

lemma generate_source_directories_exception_kinds:
  assumes "generate_source_directories env original_targets build prompt s = (Inl e, s')"
  shows "(\<exists>message. e = BuckException message)
         \<or> e = Exception ''No .buckconfig found in ancestors of the current directory.''
         \<or> e = AttributeError"
proof -
  have n: "(\<exists>message. x = BuckException message) \<or> x = AttributeError"
    if "normalize_targets env ts s0 = (Inl x, s1)" for ts s0 x s1
    using that
    by (auto simp: normalize_targets_def Let_def
             split: prod.splits timed.splits completed.splits option.splits if_splits)
  have b: "\<exists>message. x = BuckException message"
    if "build_targets env ts os s0 = (Inl x, s1)" for ts os s0 x s1
    using that
    by (auto simp: build_targets_def Let_def split: prod.splits completed.splits)
  have f: "x = Exception ''No .buckconfig found in ancestors of the current directory.''"
    if "find_built_source_directories env ts s0 = (Inl x, s1)" for ts s0 x s1
    using that
    by (cases "find_root env (world s0)")
       (auto simp: find_built_source_directories_no_root find_built_source_directories_root)
  have r: "(\<exists>message. x = BuckException message)
           \<or> x = Exception ''No .buckconfig found in ancestors of the current directory.''"
    if "rebuild_and_relocate env ts os bd pr vars s0 = (Inl x, s1)" for ts os bd pr vars s0 x s1
    using that b f
    by (auto simp: rebuild_and_relocate_def Let_def split: prod.splits sum.splits if_splits)
  from assms consider
      (N) s1 where "normalize_targets env original_targets s = (Inl e, s1)"
    | (B) ts s0 s1 where "build_targets env ts original_targets s0 = (Inl e, s1)"
    | (F) ts s0 s1 where "find_built_source_directories env ts s0 = (Inl e, s1)"
    | (R) ts vars s0 s1 where
        "rebuild_and_relocate env ts original_targets build prompt vars s0 = (Inl e, s1)"
    | (U) message where "e = BuckException message"
    by (auto simp: generate_source_directories_def Let_def
             split: prod.splits sum.splits if_splits)
  then show ?thesis
  proof cases
    case N
    with n show ?thesis by blast
  next
    case B
    with b show ?thesis by blast
  next
    case F
    with f show ?thesis by blast
  next
    case R
    with r show ?thesis by blast
  next
    case U
    then show ?thesis by blast
  qed
qed

text \<open>
  C6. The claim is not met by the code when the build root is missing: the four other
  failures are raised as \<^verbatim>\<open>BuckException\<close>, and this one as a plain
  \<^verbatim>\<open>Exception\<close>. Here the query succeeds and no \<^verbatim>\<open>.buckconfig\<close> is found.
\<close>

theorem missing_root_raises_plain_exception:
  "fst (generate_source_directories scripted [''//app:bin''] False False
          (start \<lparr>query_result = Returned (Completed ''//app:bin //app:bin.par\<newline>''),
                  build_result = Completed [], root = None, trees = [], built_trees = [],
                  answer = False\<rparr>))
     = Inl (Exception ''No .buckconfig found in ancestors of the current directory.'')
   \<and> (\<forall>message. Exception ''No .buckconfig found in ancestors of the current directory.''
                  \<noteq> BuckException message)"
proof -
  have "fst (generate_source_directories scripted [''//app:bin''] False False
          (start \<lparr>query_result = Returned (Completed ''//app:bin //app:bin.par\<newline>''),
                  build_result = Completed [], root = None, trees = [], built_trees = [],
                  answer = False\<rparr>))
     = Inl (Exception ''No .buckconfig found in ancestors of the current directory.'')"
    by code_simp
  then show ?thesis by simp
qed

end
